theory Spec2Isabelle
  imports Complex_Main
begin

section \<open>The problem orchestrator of PEPit (src/PEPit/pep.py)\<close>

text \<open>
  The class \<open>PEP\<close> accumulates functions, points, conditions and performance
  metrics, compiles them into a semidefinite program over a vector \<open>F\<close> of function
  values and a Gram matrix \<open>G\<close>, calls cvxpy, and writes the solution back into the
  \<open>value\<close> attribute of the leaf objects. Weights are Python numbers; they are
  modelled as exact reals, so rounding is outside the model.
\<close>

subsection \<open>Exceptions\<close>

datatype error =
    TypeError | AssertionError | IndexError | ValueError | LinAlgError | SolverError

subsection \<open>Objects read by pep.py\<close>

text \<open>
  The classes \<open>Point\<close>, \<open>Expression\<close> and \<open>Function\<close> are imported by pep.py.
  Each record holds the attributes pep.py reads, and an identity tag that tells two
  objects with equal attributes apart. The mutable attribute \<open>value\<close> lives in a
  store indexed by the object (see \<open>value_store\<close> below).
\<close>

record point =
  point_id :: nat
  point_is_leaf :: bool
  point_counter :: nat

text \<open>
  A key of \<open>decomposition_dict\<close>: an Expression (of which pep.py reads
  \<open>_is_function_value\<close> and \<open>counter\<close> only), a tuple (its elements are modelled
  as Points), a number (the test \<open>key == 1\<close>), or any other object.
  The dictionary is the list of its items in iteration order.
\<close>

datatype key =
    Expression_key (key_is_function_value: bool) (key_counter: nat)
  | Tuple_key "point list"
  | Number_key real
  | Other_key

record expression =
  expression_id :: nat
  is_function_value :: bool
  expression_counter :: nat
  decomposition_dict :: "(key \<times> real) list"

type_synonym triplet = "point \<times> point \<times> expression"

record Function =
  function_is_leaf :: bool
  function_list_of_points :: "triplet list"
  function_list_of_constraints :: "expression list"

text \<open>The class-level counters \<open>Point.counter\<close>, \<open>Expression.counter\<close>,
  \<open>Function.counter\<close> and \<open>PEP.counter\<close>, and the allocator of object identities.\<close>

record counters =
  Point_counter :: nat
  Expression_counter :: nat
  Function_counter :: nat
  PEP_counter :: nat
  next_id :: nat

record PEP =
  counter :: nat
  list_of_functions :: "Function list"
  list_of_points :: "point list"
  list_of_conditions :: "expression list"
  list_of_performance_metrics :: "expression list"

subsection \<open>Construction: \<open>__init__\<close>, \<open>set_initial_point\<close>, and the setters\<close>

definition PEP_init :: "counters \<Rightarrow> PEP \<times> counters" where
  "PEP_init c =
     (let c1 = c\<lparr>Point_counter := 0, Expression_counter := 0, Function_counter := 0\<rparr>;
          self = \<lparr>counter = PEP_counter c1, list_of_functions = [], list_of_points = [],
                  list_of_conditions = [], list_of_performance_metrics = []\<rparr>
      in (self, c1\<lparr>PEP_counter := PEP_counter c1 + 1\<rparr>))"

text \<open>
  Modelled from the spec: the constructor of \<open>Point\<close> is not in pep.py. A leaf point
  is a new basis dimension with the next dense index: it takes \<open>Point.counter\<close> as its
  counter and increments \<open>Point.counter\<close>.
\<close>

definition Point_leaf :: "counters \<Rightarrow> point \<times> counters" where
  "Point_leaf c =
     (\<lparr>point_id = next_id c, point_is_leaf = True, point_counter = Point_counter c\<rparr>,
      c\<lparr>Point_counter := Point_counter c + 1, next_id := next_id c + 1\<rparr>)"

definition set_initial_point :: "PEP \<Rightarrow> counters \<Rightarrow> point \<times> PEP \<times> counters" where
  "set_initial_point self c =
     (case Point_leaf c of (x, c') \<Rightarrow>
        (x, self\<lparr>list_of_points := list_of_points self @ [x]\<rparr>, c'))"

definition set_initial_condition :: "PEP \<Rightarrow> expression \<Rightarrow> PEP" where
  "set_initial_condition self condition =
     self\<lparr>list_of_conditions := list_of_conditions self @ [condition]\<rparr>"

definition set_performance_metric :: "PEP \<Rightarrow> expression \<Rightarrow> PEP" where
  "set_performance_metric self e =
     self\<lparr>list_of_performance_metrics := list_of_performance_metrics self @ [e]\<rparr>"

text \<open>\<open>n\<close> calls of \<open>set_initial_point\<close> in a row; the points returned, in order.\<close>

fun set_initial_points :: "nat \<Rightarrow> PEP \<Rightarrow> counters \<Rightarrow> point list \<times> PEP \<times> counters" where
  "set_initial_points 0 self c = ([], self, c)"
| "set_initial_points (Suc n) self c =
     (case set_initial_point self c of (x, self1, c1) \<Rightarrow>
        (case set_initial_points n self1 c1 of (xs, self2, c2) \<Rightarrow> (x # xs, self2, c2)))"

subsection \<open>\<open>expression_to_cvxpy\<close>\<close>

text \<open>
  The cvxpy expression returned is
  \<open>scalar + F @ Fweights + sum(multiply(G, Gweights))\<close>; it is represented by its
  three coefficients.
\<close>

record linear_form =
  scalar :: real
  Fweights :: "real list"
  Gweights :: "real list list"

text \<open>\<open>a[i] += w\<close> and \<open>a[i, j] += w\<close> on numpy arrays: out of range raises.\<close>

definition add_at :: "nat \<Rightarrow> real \<Rightarrow> real list \<Rightarrow> error + real list" where
  "add_at i w xs = (if i < length xs then Inr (xs[i := xs ! i + w]) else Inl IndexError)"

definition add_at2 :: "nat \<Rightarrow> nat \<Rightarrow> real \<Rightarrow> real list list \<Rightarrow> error + real list list" where
  "add_at2 i j w M =
     (if i < length M \<and> j < length (M ! i)
      then Inr (M[i := (M ! i)[j := M ! i ! j + w]]) else Inl IndexError)"

text \<open>The body of the loop over \<open>decomposition_dict.items()\<close>.\<close>

fun add_item :: "linear_form \<Rightarrow> key \<times> real \<Rightarrow> error + linear_form" where
  "add_item lf (Expression_key fv c, weight) =
     (if \<not> fv then Inl AssertionError
      else (case add_at c weight (Fweights lf) of
              Inl e \<Rightarrow> Inl e
            | Inr Fw \<Rightarrow> Inr (lf\<lparr>Fweights := Fw\<rparr>)))"
| "add_item lf (Tuple_key ps, weight) =
     (case ps of
        [point1, point2] \<Rightarrow>
          (if \<not> point_is_leaf point1 then Inl AssertionError
           else if \<not> point_is_leaf point2 then Inl AssertionError
           else (case add_at2 (point_counter point1) (point_counter point2) weight (Gweights lf) of
                   Inl e \<Rightarrow> Inl e
                 | Inr Gw \<Rightarrow> Inr (lf\<lparr>Gweights := Gw\<rparr>)))
      | _ \<Rightarrow> Inl ValueError)"
| "add_item lf (Number_key x, weight) =
     (if x = 1 then Inr (lf\<lparr>scalar := scalar lf + weight\<rparr>) else Inl TypeError)"
| "add_item lf (Other_key, weight) = Inl TypeError"

fun add_items :: "linear_form \<Rightarrow> (key \<times> real) list \<Rightarrow> error + linear_form" where
  "add_items lf [] = Inr lf"
| "add_items lf (kw # rest) =
     (case add_item lf kw of Inl e \<Rightarrow> Inl e | Inr lf' \<Rightarrow> add_items lf' rest)"

definition zero_form :: "counters \<Rightarrow> linear_form" where
  "zero_form c =
     \<lparr>scalar = 0,
      Fweights = replicate (Expression_counter c) 0,
      Gweights = replicate (Point_counter c) (replicate (Point_counter c) 0)\<rparr>"

definition expression_to_cvxpy :: "counters \<Rightarrow> expression \<Rightarrow> error + linear_form" where
  "expression_to_cvxpy c e =
     (if is_function_value e
      then (case add_at (expression_counter e) 1 (Fweights (zero_form c)) of
              Inl err \<Rightarrow> Inl err
            | Inr Fw \<Rightarrow> Inr ((zero_form c)\<lparr>Fweights := Fw\<rparr>))
      else add_items (zero_form c) (decomposition_dict e))"

subsection \<open>\<open>solve\<close>: building the cvxpy problem\<close>

text \<open>
  The objective is always \<open>Maximize(objective)\<close>; a constraint is either
  \<open>objective <= expr\<close> or \<open>expr <= 0\<close>. \<open>F\<close> has shape \<open>(Expression.counter,)\<close>
  and \<open>G\<close> is a PSD variable of shape \<open>(Point.counter, Point.counter)\<close>.
\<close>

datatype constraint = Objective_le linear_form | Le_zero linear_form

record problem =
  F_shape :: nat
  G_shape :: nat
  constraints_list :: "constraint list"

fun flatten_all ::
  "counters \<Rightarrow> (linear_form \<Rightarrow> constraint) \<Rightarrow> expression list \<Rightarrow> error + constraint list" where
  "flatten_all c mk [] = Inr []"
| "flatten_all c mk (e # es) =
     (case expression_to_cvxpy c e of
        Inl err \<Rightarrow> Inl err
      | Inr lf \<Rightarrow> (case flatten_all c mk es of
                     Inl err \<Rightarrow> Inl err
                   | Inr ks \<Rightarrow> Inr (mk lf # ks)))"

text \<open>
  What lies outside pep.py: \<open>add_class_constraints\<close> of the function classes (given
  by the content of \<open>function.list_of_constraints\<close> after the call), the cvxpy solver
  (by solver name and problem), and numpy's \<open>linalg.eig\<close> and \<open>linalg.qr\<close> in mode
  \<open>r\<close>. A solution holds \<open>prob.status\<close>, \<open>prob.value\<close> (a float, possibly
  infinite), and \<open>F.value\<close> and \<open>G.value\<close>, which are \<open>None\<close> when cvxpy has
  not set them. Arrays are lists (a matrix is the list of its rows) of numpy's floats
  taken as exact reals.
\<close>

datatype float_value = Float real | Pos_inf | Neg_inf

record solution =
  status :: string
  prob_value :: float_value
  F_value :: "real list option"
  G_value :: "real list list option"

record externals =
  add_class_constraints :: "Function \<Rightarrow> expression list"
  cvxpy_solve :: "string \<Rightarrow> problem \<Rightarrow> error + solution"
  linalg_eig :: "real list list \<Rightarrow> real list \<times> real list list"
  linalg_qr :: "real list list \<Rightarrow> real list list"

text \<open>The loop over \<open>self.list_of_functions\<close>; the functions are updated even when a
  later constraint fails to flatten.\<close>

fun class_constraints ::
  "externals \<Rightarrow> counters \<Rightarrow> Function list \<Rightarrow> (error + constraint list) \<times> Function list" where
  "class_constraints ext c [] = (Inr [], [])"
| "class_constraints ext c (f # fs) =
     (let f' = f\<lparr>function_list_of_constraints := add_class_constraints ext f\<rparr> in
      case flatten_all c Le_zero (function_list_of_constraints f') of
        Inl err \<Rightarrow> (Inl err, f' # fs)
      | Inr ks \<Rightarrow>
          (case class_constraints ext c fs of
             (Inl err, fs') \<Rightarrow> (Inl err, f' # fs')
           | (Inr ks', fs') \<Rightarrow> (Inr (ks @ ks'), f' # fs')))"

definition compile :: "externals \<Rightarrow> counters \<Rightarrow> PEP \<Rightarrow> (error + problem) \<times> PEP" where
  "compile ext c self =
     (case flatten_all c Objective_le (list_of_performance_metrics self) of
        Inl err \<Rightarrow> (Inl err, self)
      | Inr ms \<Rightarrow>
          (case flatten_all c Le_zero (list_of_conditions self) of
             Inl err \<Rightarrow> (Inl err, self)
           | Inr cs \<Rightarrow>
               (case class_constraints ext c (list_of_functions self) of
                  (Inl err, fs) \<Rightarrow> (Inl err, self\<lparr>list_of_functions := fs\<rparr>)
                | (Inr ks, fs) \<Rightarrow>
                    (Inr \<lparr>F_shape = Expression_counter c, G_shape = Point_counter c,
                          constraints_list = ms @ cs @ ks\<rparr>,
                     self\<lparr>list_of_functions := fs\<rparr>))))"

subsection \<open>\<open>eval_points_and_function_values\<close>\<close>

text \<open>The \<open>value\<close> attribute of points and expressions; \<open>None\<close> when not assigned.\<close>

record value_store =
  point_value :: "point \<Rightarrow> real list option"
  expression_value :: "expression \<Rightarrow> real option"

text \<open>A loop whose body may raise: the state reached so far is kept.\<close>

fun for_each :: "('a \<Rightarrow> 's \<Rightarrow> (error + unit) \<times> 's) \<Rightarrow> 'a list \<Rightarrow> 's \<Rightarrow> (error + unit) \<times> 's" where
  "for_each body [] s = (Inr (), s)"
| "for_each body (x # xs) s =
     (case body x s of
        (Inl e, s') \<Rightarrow> (Inl e, s')
      | (Inr u, s') \<Rightarrow> for_each body xs s')"

definition ncols :: "real list list \<Rightarrow> nat" where
  "ncols M = (case M of [] \<Rightarrow> 0 | row # _ \<Rightarrow> length row)"

text \<open>\<open>points_values[:, c]\<close>\<close>

definition column :: "real list list \<Rightarrow> nat \<Rightarrow> error + real list" where
  "column M c = (if c < ncols M then Inr (map (\<lambda>row. row ! c) M) else Inl IndexError)"

definition set_point_value :: "real list list \<Rightarrow> point \<Rightarrow> value_store \<Rightarrow> (error + unit) \<times> value_store" where
  "set_point_value points_values p s =
     (if point_is_leaf p
      then (case column points_values (point_counter p) of
              Inl e \<Rightarrow> (Inl e, s)
            | Inr col \<Rightarrow> (Inr (), s\<lparr>point_value := (point_value s)(p \<mapsto> col)\<rparr>))
      else (Inr (), s))"

definition set_function_value :: "real list option \<Rightarrow> expression \<Rightarrow> value_store \<Rightarrow> (error + unit) \<times> value_store" where
  "set_function_value Fv function_value s =
     (if is_function_value function_value
      then (case Fv of
              None \<Rightarrow> (Inl TypeError, s)
            | Some xs \<Rightarrow>
                (if expression_counter function_value < length xs
                 then (Inr (), s\<lparr>expression_value :=
                          (expression_value s)(function_value \<mapsto> xs ! expression_counter function_value)\<rparr>)
                 else (Inl IndexError, s)))
      else (Inr (), s))"

definition set_triplet ::
  "real list list \<Rightarrow> real list option \<Rightarrow> triplet \<Rightarrow> value_store \<Rightarrow> (error + unit) \<times> value_store" where
  "set_triplet points_values Fv t s =
     (case t of (p, gradient, function_value) \<Rightarrow>
        (case set_point_value points_values p s of
           (Inl e, s1) \<Rightarrow> (Inl e, s1)
         | (Inr u, s1) \<Rightarrow>
             (case set_point_value points_values gradient s1 of
                (Inl e, s2) \<Rightarrow> (Inl e, s2)
              | (Inr u, s2) \<Rightarrow> set_function_value Fv function_value s2)))"

definition set_function ::
  "real list list \<Rightarrow> real list option \<Rightarrow> Function \<Rightarrow> value_store \<Rightarrow> (error + unit) \<times> value_store" where
  "set_function points_values Fv f s =
     (if function_is_leaf f
      then for_each (set_triplet points_values Fv) (function_list_of_points f) s
      else (Inr (), s))"

definition assign_values ::
  "real list list \<Rightarrow> real list option \<Rightarrow> PEP \<Rightarrow> value_store \<Rightarrow> (error + unit) \<times> value_store" where
  "assign_values points_values Fv self s =
     (case for_each (set_point_value points_values) (list_of_points self) s of
        (Inl e, s1) \<Rightarrow> (Inl e, s1)
      | (Inr u, s1) \<Rightarrow> for_each (set_function points_values Fv) (list_of_functions self) s1)"

text \<open>\<open>np.min\<close> raises on an empty array.\<close>

definition np_min :: "real list \<Rightarrow> error + real" where
  "np_min xs = (case xs of [] \<Rightarrow> Inl ValueError | x # rest \<Rightarrow> Inr (fold min rest x))"

text \<open>\<open>np.linalg.qr((np.sqrt(eig_val) * eig_vec).T, mode='r')\<close>: the product
  broadcasts along the last axis, scaling column \<open>j\<close> of \<open>eig_vec\<close> by the root of
  eigenvalue \<open>j\<close>.\<close>

definition points_values_of :: "externals \<Rightarrow> real list \<Rightarrow> real list list \<Rightarrow> real list list" where
  "points_values_of ext eig_val eig_vec =
     linalg_qr ext (transpose (map (\<lambda>row. map2 (*) (map sqrt eig_val) row) eig_vec))"

definition eval_points_and_function_values ::
  "externals \<Rightarrow> PEP \<Rightarrow> real list option \<Rightarrow> real list list option \<Rightarrow> value_store
     \<Rightarrow> (error + unit) \<times> value_store" where
  "eval_points_and_function_values ext self Fv Gv s =
     (case Gv of
        None \<Rightarrow> (Inl LinAlgError, s)
      | Some G \<Rightarrow>
          (case linalg_eig ext G of (eig_val, eig_vec) \<Rightarrow>
             (case np_min eig_val of
                Inl e \<Rightarrow> (Inl e, s)
              | Inr m \<Rightarrow>
                  if \<not> (m \<ge> - (1 / 10 ^ 4)) then (Inl AssertionError, s)
                  else assign_values
                         (points_values_of ext (map (\<lambda>x. max x 0) eig_val) eig_vec) Fv self s)))"

subsection \<open>\<open>solve\<close>\<close>

text \<open>The state a call of \<open>solve\<close> runs in, beside the instance: the class counters,
  the \<open>value\<close> attributes, and the calls made to the solver so far. An exception
  leaves the state as it is when raised. Printing (\<open>verbose\<close>) is left out.\<close>

record world =
  classes :: counters
  store :: "value_store"
  solver_calls :: "(string \<times> problem) list"

definition solve ::
  "externals \<Rightarrow> string \<Rightarrow> PEP \<Rightarrow> world \<Rightarrow> (error + float_value) \<times> PEP \<times> world" where
  "solve ext solver self w =
     (case compile ext (classes w) self of
        (Inl err, self1) \<Rightarrow> (Inl err, self1, w)
      | (Inr prob, self1) \<Rightarrow>
          (let w1 = w\<lparr>solver_calls := solver_calls w @ [(solver, prob)]\<rparr> in
           case cvxpy_solve ext solver prob of
             Inl err \<Rightarrow> (Inl err, self1, w1)
           | Inr sol \<Rightarrow>
               (case eval_points_and_function_values ext self1 (F_value sol) (G_value sol) (store w1) of
                  (Inl err, s) \<Rightarrow> (Inl err, self1, w1\<lparr>store := s\<rparr>)
                | (Inr u, s) \<Rightarrow> (Inr (prob_value sol), self1, w1\<lparr>store := s\<rparr>))))"

subsection \<open>Well-formed expressions and the weights a decomposition stands for\<close>

text \<open>
  A key the loop of \<open>expression_to_cvxpy\<close> accepts for counters \<open>c\<close>: a function
  value with an index below \<open>Expression.counter\<close>, a pair of leaf points with indices
  below \<open>Point.counter\<close>, or the number 1.
\<close>

fun key_ok :: "counters \<Rightarrow> key \<Rightarrow> bool" where
  "key_ok c (Expression_key fv i) = (fv \<and> i < Expression_counter c)"
| "key_ok c (Tuple_key ps) =
     (case ps of
        [p1, p2] \<Rightarrow> point_is_leaf p1 \<and> point_is_leaf p2 \<and>
                    point_counter p1 < Point_counter c \<and> point_counter p2 < Point_counter c
      | _ \<Rightarrow> False)"
| "key_ok c (Number_key x) = (x = 1)"
| "key_ok c Other_key = False"

definition well_formed :: "counters \<Rightarrow> expression \<Rightarrow> bool" where
  "well_formed c e =
     (if is_function_value e then expression_counter e < Expression_counter c
      else list_all (\<lambda>kw. key_ok c (fst kw)) (decomposition_dict e))"

text \<open>The index of \<open>F\<close>, the cell of \<open>G\<close>, or the scalar a key stands for.\<close>

fun F_index :: "key \<Rightarrow> nat option" where
  "F_index (Expression_key fv i) = Some i"
| "F_index k = None"

fun G_index :: "key \<Rightarrow> (nat \<times> nat) option" where
  "G_index (Tuple_key [p1, p2]) = Some (point_counter p1, point_counter p2)"
| "G_index k = None"

fun is_one :: "key \<Rightarrow> bool" where
  "is_one (Number_key x) = (x = 1)"
| "is_one k = False"

text \<open>The flattened form in the words of the specification: every entry is
  distributed by the kind of its key, and weights on the same index are summed.\<close>

definition F_weight :: "(key \<times> real) list \<Rightarrow> nat \<Rightarrow> real" where
  "F_weight d i = (\<Sum>(k, w) \<leftarrow> d. if F_index k = Some i then w else 0)"

definition G_weight :: "(key \<times> real) list \<Rightarrow> nat \<Rightarrow> nat \<Rightarrow> real" where
  "G_weight d i j = (\<Sum>(k, w) \<leftarrow> d. if G_index k = Some (i, j) then w else 0)"

definition scalar_weight :: "(key \<times> real) list \<Rightarrow> real" where
  "scalar_weight d = (\<Sum>(k, w) \<leftarrow> d. if is_one k then w else 0)"

definition shaped :: "nat \<Rightarrow> nat \<Rightarrow> linear_form \<Rightarrow> bool" where
  "shaped V P lf =
     (length (Fweights lf) = V \<and> length (Gweights lf) = P \<and>
      list_all (\<lambda>row. length row = P) (Gweights lf))"

subsection \<open>The order of compilation, and keys of no kind\<close>

text \<open>The expressions \<open>solve\<close> flattens, in the order in which it flattens them:
  the performance metrics, the initial conditions, then every function's constraints.\<close>

definition compile_order :: "externals \<Rightarrow> PEP \<Rightarrow> expression list" where
  "compile_order ext self =
     list_of_performance_metrics self @ list_of_conditions self @
     concat (map (add_class_constraints ext) (list_of_functions self))"

text \<open>A key that is neither an Expression, nor a tuple, nor equal to 1: the last
  branch of the loop of \<open>expression_to_cvxpy\<close>.\<close>

fun no_key_kind :: "key \<Rightarrow> bool" where
  "no_key_kind (Expression_key fv i) = False"
| "no_key_kind (Tuple_key ps) = False"
| "no_key_kind (Number_key x) = (x \<noteq> 1)"
| "no_key_kind Other_key = True"

subsection \<open>Example inputs\<close>

definition example_counters :: counters where
  "example_counters =
     \<lparr>Point_counter = 2, Expression_counter = 2, Function_counter = 1, PEP_counter = 1,
      next_id = 9\<rparr>"

definition example_x0 :: point where
  "example_x0 = \<lparr>point_id = 0, point_is_leaf = True, point_counter = 0\<rparr>"

definition example_x1 :: point where
  "example_x1 = \<lparr>point_id = 1, point_is_leaf = True, point_counter = 1\<rparr>"

definition example_expression :: expression where
  "example_expression =
     \<lparr>expression_id = 5, is_function_value = False, expression_counter = 0,
      decomposition_dict =
        [(Expression_key True 1, 2), (Tuple_key [example_x0, example_x1], 3),
         (Expression_key True 1, 5), (Number_key 1, 7)]\<rparr>"

text \<open>A function value, a function that has been called once, and an instance with one
  metric, one condition and one function, in a state with two leaf points and two
  function values.\<close>

definition example_function_value :: expression where
  "example_function_value =
     \<lparr>expression_id = 3, is_function_value = True, expression_counter = 0,
      decomposition_dict = [(Expression_key True 0, 1)]\<rparr>"

definition example_function :: Function where
  "example_function =
     \<lparr>function_is_leaf = True,
      function_list_of_points = [(example_x0, example_x1, example_function_value)],
      function_list_of_constraints = []\<rparr>"

definition example_solution :: solution where
  "example_solution =
     \<lparr>status = ''optimal'', prob_value = Float (1 / 4), F_value = Some [1 / 4, 0],
      G_value = Some [[1, 0], [0, 0]]\<rparr>"

definition example_externals :: externals where
  "example_externals =
     \<lparr>add_class_constraints = (\<lambda>f. [example_expression]),
      cvxpy_solve = (\<lambda>solver prob. Inr example_solution),
      linalg_eig = (\<lambda>G. ([1, 0], [[1, 0], [0, 1]])),
      linalg_qr = (\<lambda>M. M)\<rparr>"

definition example_PEP :: PEP where
  "example_PEP =
     \<lparr>counter = 0, list_of_functions = [example_function], list_of_points = [example_x0],
      list_of_conditions = [example_expression],
      list_of_performance_metrics = [example_function_value]\<rparr>"

text \<open>A composite expression whose only key is an Expression that is not a function
  value.\<close>

definition nested_expression :: expression where
  "nested_expression =
     \<lparr>expression_id = 6, is_function_value = False, expression_counter = 0,
      decomposition_dict = [(Expression_key False 0, 1)]\<rparr>"

text \<open>A composite expression with a string for a key, after an accepted entry.\<close>

definition malformed_expression :: expression where
  "malformed_expression =
     \<lparr>expression_id = 7, is_function_value = False, expression_counter = 0,
      decomposition_dict = [(Number_key 1, 2), (Other_key, 1)]\<rparr>"

text \<open>The key kinds the specification names: a leaf function value, a pair of
  points, the constant 1.\<close>

fun recognised :: "key \<Rightarrow> bool" where
  "recognised (Expression_key fv i) = fv"
| "recognised (Tuple_key ps) = (length ps = 2)"
| "recognised (Number_key x) = (x = 1)"
| "recognised Other_key = False"

text \<open>A state in which nothing has been solved yet, and the example instance with
  the malformed expression as its second condition.\<close>

definition example_world :: world where
  "example_world =
     \<lparr>classes = example_counters,
      store = \<lparr>point_value = (\<lambda>p. None), expression_value = (\<lambda>e. None)\<rparr>,
      solver_calls = []\<rparr>"

definition malformed_PEP :: PEP where
  "malformed_PEP =
     example_PEP\<lparr>list_of_conditions := [example_expression, malformed_expression]\<rparr>"

subsection \<open>The objects \<open>eval_points_and_function_values\<close> reaches\<close>

text \<open>The points and gradients, and the function values, that the two loops visit:
  \<open>self.list_of_points\<close>, then the triplets of the leaf functions.\<close>

definition registered_points :: "PEP \<Rightarrow> point list" where
  "registered_points self =
     list_of_points self @
     concat (map (\<lambda>f. if function_is_leaf f
                       then concat (map (\<lambda>(p, g, v). [p, g]) (function_list_of_points f))
                       else [])
               (list_of_functions self))"

definition registered_function_values :: "PEP \<Rightarrow> expression list" where
  "registered_function_values self =
     concat (map (\<lambda>f. if function_is_leaf f
                       then map (\<lambda>(p, g, v). v) (function_list_of_points f)
                       else [])
               (list_of_functions self))"

text \<open>The store in which the leaf points among \<open>A\<close> hold their column of
  \<open>points_values\<close> and the function values among \<open>E\<close> their entry of \<open>F_value\<close>,
  and every other object the value it has in \<open>s\<close>.\<close>

definition assigned ::
  "real list list \<Rightarrow> real list option \<Rightarrow> point set \<Rightarrow> expression set \<Rightarrow> value_store
     \<Rightarrow> value_store" where
  "assigned pv Fv A E s =
     \<lparr>point_value =
        (\<lambda>p. if p \<in> A \<and> point_is_leaf p then Some (map (\<lambda>row. row ! point_counter p) pv)
             else point_value s p),
      expression_value =
        (\<lambda>e. if e \<in> E \<and> is_function_value e
             then map_option (\<lambda>xs. xs ! expression_counter e) Fv
             else expression_value s e)\<rparr>"

text \<open>The indices the loops read are in range.\<close>

definition point_in_range :: "real list list \<Rightarrow> point \<Rightarrow> bool" where
  "point_in_range pv p = (point_is_leaf p \<longrightarrow> point_counter p < ncols pv)"

definition value_in_range :: "real list option \<Rightarrow> expression \<Rightarrow> bool" where
  "value_in_range Fv e =
     (is_function_value e \<longrightarrow> (case Fv of None \<Rightarrow> False | Some xs \<Rightarrow> expression_counter e < length xs))"

subsection \<open>The stages of \<open>solve\<close>\<close>


text \<open>What cvxpy documents about a solution: the variables have a value only when the
  status is \<open>optimal\<close> or \<open>optimal_inaccurate\<close>.\<close>

definition values_only_when_solved :: "solution \<Rightarrow> bool" where
  "values_only_when_solved sol =
     (status sol = ''optimal'' \<or> status sol = ''optimal_inaccurate'' \<or>
      (F_value sol = None \<and> G_value sol = None))"

text \<open>A solver that finds the problem infeasible.\<close>

definition infeasible_solution :: solution where
  "infeasible_solution =
     \<lparr>status = ''infeasible'', prob_value = Neg_inf, F_value = None, G_value = None\<rparr>"

definition infeasible_externals :: externals where
  "infeasible_externals =
     example_externals\<lparr>cvxpy_solve := (\<lambda>solver prob. Inr infeasible_solution)\<rparr>"

text \<open>A numpy whose eigenvalues for the example carry solver noise.\<close>

definition noisy_externals :: externals where
  "noisy_externals =
     example_externals\<lparr>linalg_eig := (\<lambda>G. ([1, - (1 / 20000)], [[1, 0], [0, 1]]))\<rparr>"

text \<open>The keys at which the loop stops, by the error it raises there: an assertion
  fails at an Expression that is not a function value and at a pair with a point that is
  not a leaf; unpacking fails at a tuple that is not a pair; an index is out of range at
  a function value or a pair of leaf points whose counter is not below the counter of its
  class.\<close>

fun asserted_key :: "key \<Rightarrow> bool" where
  "asserted_key (Expression_key fv i) = (\<not> fv)"
| "asserted_key (Tuple_key ps) =
     (case ps of [p1, p2] \<Rightarrow> \<not> point_is_leaf p1 \<or> \<not> point_is_leaf p2 | _ \<Rightarrow> False)"
| "asserted_key (Number_key x) = False"
| "asserted_key Other_key = False"

fun not_a_pair :: "key \<Rightarrow> bool" where
  "not_a_pair (Tuple_key ps) = (length ps \<noteq> 2)"
| "not_a_pair k = False"

fun out_of_range :: "counters \<Rightarrow> key \<Rightarrow> bool" where
  "out_of_range c (Expression_key fv i) = (fv \<and> \<not> i < Expression_counter c)"
| "out_of_range c (Tuple_key ps) =
     (case ps of
        [p1, p2] \<Rightarrow> point_is_leaf p1 \<and> point_is_leaf p2 \<and>
                    (\<not> point_counter p1 < Point_counter c \<or> \<not> point_counter p2 < Point_counter c)
      | _ \<Rightarrow> False)"
| "out_of_range c (Number_key x) = False"
| "out_of_range c Other_key = False"

definition key_error :: "counters \<Rightarrow> key \<Rightarrow> error option" where
  "key_error c k =
     (if asserted_key k then Some AssertionError
      else if not_a_pair k then Some ValueError
      else if no_key_kind k then Some TypeError
      else if out_of_range c k then Some IndexError
      else None)"

text \<open>Composite expressions that stop at an assertion, at the unpacking of a tuple, and
  at an index.\<close>

definition non_leaf_pair_expression :: expression where
  "non_leaf_pair_expression =
     \<lparr>expression_id = 8, is_function_value = False, expression_counter = 0,
      decomposition_dict =
        [(Number_key 1, 2),
         (Tuple_key [example_x0, \<lparr>point_id = 4, point_is_leaf = False, point_counter = 0\<rparr>], 1)]\<rparr>"

definition triple_expression :: expression where
  "triple_expression =
     \<lparr>expression_id = 9, is_function_value = False, expression_counter = 0,
      decomposition_dict = [(Tuple_key [example_x0, example_x1, example_x0], 1)]\<rparr>"

text \<open>Two instances created one after the other from the example counters, each minting
  one leaf point; and the first instance minting another leaf point once the second
  instance has been created.\<close>

definition first_run :: "point list \<times> PEP \<times> counters" where
  "first_run =
     set_initial_points (Suc 0) (fst (PEP_init example_counters))
       (snd (PEP_init example_counters))"

definition second_run :: "point list \<times> PEP \<times> counters" where
  "second_run =
     set_initial_points (Suc 0) (fst (PEP_init (snd (snd first_run))))
       (snd (PEP_init (snd (snd first_run))))"

definition interleaved :: "point \<times> PEP \<times> counters" where
  "interleaved =
     set_initial_point (fst (snd first_run)) (snd (PEP_init (snd (snd first_run))))"

subsection \<open>The assignments, one by one\<close>

text \<open>The objects the two loops of \<open>eval_points_and_function_values\<close> visit, in the
  order in which they visit them: a point of \<open>list_of_points\<close>, or the point, the
  gradient and the function value of a triplet of a leaf function.\<close>

datatype target = Point_target point | Value_target expression

definition assignment_steps :: "PEP \<Rightarrow> target list" where
  "assignment_steps self =
     map Point_target (list_of_points self) @
     concat (map (\<lambda>f. if function_is_leaf f
                       then concat (map (\<lambda>(p, g, v). [Point_target p, Point_target g, Value_target v])
                                      (function_list_of_points f))
                       else [])
               (list_of_functions self))"




definition target_points :: "target list \<Rightarrow> point set" where
  "target_points ts = {p. Point_target p \<in> set ts}"

definition target_values :: "target list \<Rightarrow> expression set" where
  "target_values ts = {e. Value_target e \<in> set ts}"

text \<open>The solution the solver returns to \<open>solve\<close>, if it is called and returns; and
  \<open>points_values\<close> as computed from \<open>G_value\<close>.\<close>

definition returned_solution :: "externals \<Rightarrow> string \<Rightarrow> PEP \<Rightarrow> world \<Rightarrow> solution option" where
  "returned_solution ext solver self w =
     (case compile ext (classes w) self of
        (Inl err, self1) \<Rightarrow> None
      | (Inr prob, self1) \<Rightarrow>
          (case cvxpy_solve ext solver prob of Inl err \<Rightarrow> None | Inr sol \<Rightarrow> Some sol))"

definition points_values :: "externals \<Rightarrow> real list list \<Rightarrow> real list list" where
  "points_values ext G =
     points_values_of ext (map (\<lambda>x. max x 0) (fst (linalg_eig ext G))) (snd (linalg_eig ext G))"

text \<open>A constant, a solver whose answer is optimal for the two instances below, an instance
  that uses the leaf point \<open>example_x1\<close> in a condition without holding it, and an
  instance that holds a leaf point minted before the counters were reset: its index 2 is
  not below \<open>Point.counter\<close>.\<close>

definition constant_expression :: expression where
  "constant_expression =
     \<lparr>expression_id = 10, is_function_value = False, expression_counter = 0,
      decomposition_dict = [(Number_key 1, 1 / 4)]\<rparr>"






subsection \<open>Inner products of the reconstructed vectors\<close>

text \<open>The inner product of two vectors, and entry \<open>(i, j)\<close> of the Gram matrix
  \<open>M\<^sup>t M\<close> of the columns of a matrix given by its rows.\<close>

definition dot :: "real list \<Rightarrow> real list \<Rightarrow> real" where
  "dot xs ys = (\<Sum>(x, y) \<leftarrow> zip xs ys. x * y)"

definition gram :: "real list list \<Rightarrow> nat \<Rightarrow> nat \<Rightarrow> real" where
  "gram M i j = (\<Sum>row \<leftarrow> M. row ! i * row ! j)"

text \<open>
  What \<open>np.linalg.eig\<close> and \<open>np.linalg.qr\<close> deliver on \<open>G\<close> in exact arithmetic, as the
  specification takes them: with \<open>P\<close> the size of \<open>G\<close>, eigenvalues \<open>\<Lambda>\<close> and a
  \<open>P \<times> P\<close> matrix \<open>Q\<close> with \<open>G = Q \<Lambda> Q\<^sup>t\<close> whose rows have norm 1 (as those of an
  orthogonal matrix have), and a \<open>P \<times> P\<close> factor \<open>R\<close> of the matrix \<open>X\<close> that
  \<open>eval_points_and_function_values\<close> builds from the clipped eigenvalues, with
  \<open>R\<^sup>t R = X\<^sup>t X\<close>.
\<close>

definition exact_linalg :: "externals \<Rightarrow> real list list \<Rightarrow> bool" where
  "exact_linalg ext G =
     (case linalg_eig ext G of (eig_val, eig_vec) \<Rightarrow>
        let P = length G;
            X = transpose (map (\<lambda>row. map2 (*) (map sqrt (map (\<lambda>x. max x 0) eig_val)) row)
                             eig_vec);
            R = linalg_qr ext X
        in length eig_val = P \<and> length eig_vec = P \<and>
           list_all (\<lambda>row. length row = P) eig_vec \<and>
           (\<forall>i<P. \<forall>j<P.
              G ! i ! j = (\<Sum>k<P. eig_val ! k * (eig_vec ! i ! k) * (eig_vec ! j ! k))) \<and>
           (\<forall>i<P. (\<Sum>k<P. (eig_vec ! i ! k)\<^sup>2) = 1) \<and>
           length R = P \<and> list_all (\<lambda>row. length row = P) R \<and>
           (\<forall>i<P. \<forall>j<P. gram R i j = gram X i j))"

text \<open>A solver whose answer has an eigenvalue inside the tolerance of the check, a numpy
  that is exact on diagonal matrices, and an instance with two leaf points and a constant
  metric, for which every Gram matrix is optimal.\<close>

definition noisy_G :: "real list list" where
  "noisy_G = [[1, 0], [0, - (1 / 20000)]]"

definition noisy_solution :: solution where
  "noisy_solution =
     \<lparr>status = ''optimal'', prob_value = Float (1 / 4), F_value = Some [0, - 1],
      G_value = Some noisy_G\<rparr>"

definition diagonal_eig :: "real list list \<Rightarrow> real list \<times> real list list" where
  "diagonal_eig G =
     (map (\<lambda>i. G ! i ! i) [0..<length G],
      map (\<lambda>i. map (\<lambda>j. if i = j then 1 else 0) [0..<length G]) [0..<length G])"

definition diagonal_externals :: externals where
  "diagonal_externals =
     example_externals\<lparr>cvxpy_solve := (\<lambda>solver prob. Inr noisy_solution),
                        linalg_eig := diagonal_eig\<rparr>"

definition two_point_PEP :: PEP where
  "two_point_PEP =
     \<lparr>counter = 0, list_of_functions = [], list_of_points = [example_x0, example_x1],
      list_of_conditions = [], list_of_performance_metrics = [constant_expression]\<rparr>"

section \<open>Properties\<close>

subsection \<open>Flattening\<close>

lemma add_item_ok:
  assumes "key_ok c k" "shaped (Expression_counter c) (Point_counter c) lf"
  shows "\<exists>lf'. add_item lf (k, w) = Inr lf' \<and>
           shaped (Expression_counter c) (Point_counter c) lf' \<and>
           (\<forall>i. Fweights lf' ! i = Fweights lf ! i + (if F_index k = Some i then w else 0)) \<and>
           (\<forall>i j. Gweights lf' ! i ! j =
                     Gweights lf ! i ! j + (if G_index k = Some (i, j) then w else 0)) \<and>
           scalar lf' = scalar lf + (if is_one k then w else 0)"
proof (cases k)
  case (Expression_key fv i)
  with assms show ?thesis
    by (auto simp: shaped_def add_at_def nth_list_update)
next
  case (Tuple_key ps)
  with assms obtain p1 p2 where ps: "ps = [p1, p2]"
    by (auto split: list.splits)
  from assms Tuple_key ps have r: "point_counter p1 < length (Gweights lf)"
    "point_counter p2 < length (Gweights lf ! point_counter p1)"
    by (auto simp: shaped_def list_all_length)
  from assms Tuple_key ps r show ?thesis
    by (auto simp: shaped_def add_at2_def nth_list_update list_all_length)
next
  case (Number_key x)
  with assms show ?thesis by (auto simp: shaped_def)
next
  case Other_key
  with assms show ?thesis by simp
qed

lemma add_items_ok:
  assumes "list_all (\<lambda>kw. key_ok c (fst kw)) d"
    "shaped (Expression_counter c) (Point_counter c) lf"
  shows "\<exists>lf'. add_items lf d = Inr lf' \<and>
           shaped (Expression_counter c) (Point_counter c) lf' \<and>
           (\<forall>i. Fweights lf' ! i = Fweights lf ! i + F_weight d i) \<and>
           (\<forall>i j. Gweights lf' ! i ! j = Gweights lf ! i ! j + G_weight d i j) \<and>
           scalar lf' = scalar lf + scalar_weight d"
  using assms
proof (induction d arbitrary: lf)
  case Nil
  then show ?case by (simp add: F_weight_def G_weight_def scalar_weight_def)
next
  case (Cons kw d)
  obtain k w where kw: "kw = (k, w)" by (cases kw)
  from Cons.prems kw have ok: "key_ok c k" and rest: "list_all (\<lambda>kw. key_ok c (fst kw)) d"
    by auto
  from add_item_ok[OF ok Cons.prems(2), of w] obtain lf1 where
    s1: "add_item lf (k, w) = Inr lf1"
    and sh1: "shaped (Expression_counter c) (Point_counter c) lf1"
    and F1: "\<And>i. Fweights lf1 ! i = Fweights lf ! i + (if F_index k = Some i then w else 0)"
    and G1: "\<And>i j. Gweights lf1 ! i ! j =
                      Gweights lf ! i ! j + (if G_index k = Some (i, j) then w else 0)"
    and c1: "scalar lf1 = scalar lf + (if is_one k then w else 0)"
    by blast
  from Cons.IH[OF rest sh1] obtain lf2 where
    s2: "add_items lf1 d = Inr lf2"
    and sh2: "shaped (Expression_counter c) (Point_counter c) lf2"
    and F2: "\<And>i. Fweights lf2 ! i = Fweights lf1 ! i + F_weight d i"
    and G2: "\<And>i j. Gweights lf2 ! i ! j = Gweights lf1 ! i ! j + G_weight d i j"
    and c2: "scalar lf2 = scalar lf1 + scalar_weight d"
    by blast
  have "add_items lf (kw # d) = Inr lf2" using s1 s2 kw by simp
  moreover have "\<And>i. Fweights lf2 ! i = Fweights lf ! i + F_weight (kw # d) i"
    using F1 F2 kw by (simp add: F_weight_def)
  moreover have "\<And>i j. Gweights lf2 ! i ! j = Gweights lf ! i ! j + G_weight (kw # d) i j"
    using G1 G2 kw by (simp add: G_weight_def)
  moreover have "scalar lf2 = scalar lf + scalar_weight (kw # d)"
    using c1 c2 kw by (simp add: scalar_weight_def)
  ultimately show ?case using sh2 by blast
qed

lemma shaped_zero_form: "shaped (Expression_counter c) (Point_counter c) (zero_form c)"
  by (simp add: shaped_def zero_form_def list_all_length)

text \<open>
  C2. For a well-formed expression, \<open>expression_to_cvxpy\<close> returns a linear form
  with a weight vector of length \<open>Expression.counter\<close>, a square weight matrix of side
  \<open>Point.counter\<close> and a scalar. A function value gets weight 1 on its own index
  of \<open>F\<close> and nothing else. For a composite expression, the weight on index \<open>i\<close>
  of \<open>F\<close> is the sum of the weights of the function-value keys with counter \<open>i\<close>,
  the weight on cell \<open>(i, j)\<close> of \<open>G\<close> is the sum of the weights of the point pairs
  with counters \<open>(i, j)\<close>, and the scalar is the sum of the weights of the keys 1.
\<close>

theorem expression_to_cvxpy_flattens:
  assumes "well_formed c e"
  shows "\<exists>lf. expression_to_cvxpy c e = Inr lf \<and>
           length (Fweights lf) = Expression_counter c \<and>
           length (Gweights lf) = Point_counter c \<and>
           (\<forall>i < Point_counter c. length (Gweights lf ! i) = Point_counter c) \<and>
           (is_function_value e \<longrightarrow>
              scalar lf = 0 \<and>
              (\<forall>i < Expression_counter c.
                 Fweights lf ! i = (if i = expression_counter e then 1 else 0)) \<and>
              (\<forall>i < Point_counter c. \<forall>j < Point_counter c. Gweights lf ! i ! j = 0)) \<and>
           (\<not> is_function_value e \<longrightarrow>
              scalar lf = scalar_weight (decomposition_dict e) \<and>
              (\<forall>i < Expression_counter c.
                 Fweights lf ! i = F_weight (decomposition_dict e) i) \<and>
              (\<forall>i < Point_counter c. \<forall>j < Point_counter c.
                 Gweights lf ! i ! j = G_weight (decomposition_dict e) i j))"
proof (cases "is_function_value e")
  case True
  with assms have "expression_counter e < Expression_counter c"
    by (simp add: well_formed_def)
  with True show ?thesis
    by (simp add: expression_to_cvxpy_def add_at_def zero_form_def nth_list_update)
next
  case False
  with assms have "list_all (\<lambda>kw. key_ok c (fst kw)) (decomposition_dict e)"
    by (simp add: well_formed_def)
  from add_items_ok[OF this shaped_zero_form] obtain lf where
    r: "add_items (zero_form c) (decomposition_dict e) = Inr lf"
    and sh: "shaped (Expression_counter c) (Point_counter c) lf"
    and F: "\<And>i. Fweights lf ! i = Fweights (zero_form c) ! i + F_weight (decomposition_dict e) i"
    and G: "\<And>i j. Gweights lf ! i ! j =
                     Gweights (zero_form c) ! i ! j + G_weight (decomposition_dict e) i j"
    and s: "scalar lf = scalar (zero_form c) + scalar_weight (decomposition_dict e)"
    by blast
  have "expression_to_cvxpy c e = Inr lf"
    using False r by (simp add: expression_to_cvxpy_def)
  moreover have "scalar lf = scalar_weight (decomposition_dict e)"
    using s by (simp add: zero_form_def)
  moreover have "\<forall>i < Expression_counter c. Fweights lf ! i = F_weight (decomposition_dict e) i"
    using F by (simp add: zero_form_def)
  moreover have "\<forall>i < Point_counter c. \<forall>j < Point_counter c.
                   Gweights lf ! i ! j = G_weight (decomposition_dict e) i j"
    using G by (simp add: zero_form_def)
  moreover have "\<forall>i < Point_counter c. length (Gweights lf ! i) = Point_counter c"
    using sh by (simp add: shaped_def list_all_length)
  ultimately show ?thesis
    using sh False by (auto simp: shaped_def)
qed

theorem expression_to_cvxpy_flattens_witness:
  "well_formed example_counters example_expression \<and>
   (\<exists>lf. expression_to_cvxpy example_counters example_expression = Inr lf \<and>
         Fweights lf ! 1 = 7 \<and> Gweights lf ! 0 ! 1 = 3 \<and> Gweights lf ! 1 ! 0 = 0 \<and>
         scalar lf = 7)"
proof -
  have wf: "well_formed example_counters example_expression"
    by (simp add: well_formed_def example_counters_def example_expression_def
        example_x0_def example_x1_def)
  from expression_to_cvxpy_flattens[OF wf] obtain lf where
    r: "expression_to_cvxpy example_counters example_expression = Inr lf"
    and s: "scalar lf = scalar_weight (decomposition_dict example_expression)"
    and F: "\<forall>i < Expression_counter example_counters.
              Fweights lf ! i = F_weight (decomposition_dict example_expression) i"
    and G: "\<forall>i < Point_counter example_counters. \<forall>j < Point_counter example_counters.
              Gweights lf ! i ! j = G_weight (decomposition_dict example_expression) i j"
    by (auto simp: example_expression_def)
  have "Fweights lf ! 1 = 7"
    using F by (simp add: F_weight_def example_counters_def example_expression_def)
  moreover have "Gweights lf ! 0 ! 1 = 3" "Gweights lf ! 1 ! 0 = 0"
    using G by (simp_all add: G_weight_def example_counters_def example_expression_def
        example_x0_def example_x1_def)
  moreover have "scalar lf = 7"
    using s by (simp add: scalar_weight_def example_expression_def)
  ultimately show ?thesis using wf r by blast
qed

subsection \<open>Compilation\<close>

lemma flatten_all_Inr_iff:
  "flatten_all c mk es = Inr ks \<longleftrightarrow>
     (\<exists>lfs. map (expression_to_cvxpy c) es = map Inr lfs \<and> ks = map mk lfs)"
proof (induction es arbitrary: ks)
  case Nil
  then show ?case by auto
next
  case (Cons e es)
  show ?case
  proof (cases "expression_to_cvxpy c e")
    case (Inl err)
    then show ?thesis by (auto simp: map_eq_Cons_conv)
  next
    case (Inr lf)
    show ?thesis
    proof (cases "flatten_all c mk es")
      case (Inl err)
      with Inr Cons.IH show ?thesis
        by (auto simp: map_eq_Cons_conv)
    next
      case r: (Inr ks')
      with Cons.IH[of ks'] obtain lfs where
        l: "map (expression_to_cvxpy c) es = map Inr lfs" "ks' = map mk lfs"
        by auto
      from l(1) have inj: "\<And>lfs'. map (expression_to_cvxpy c) es = map Inr lfs' \<Longrightarrow> lfs' = lfs"
        by (metis inj_Inr inj_map_eq_map)
      show ?thesis
      proof
        assume "flatten_all c mk (e # es) = Inr ks"
        then have "ks = mk lf # ks'" using Inr r by simp
        then show "\<exists>lfs. map (expression_to_cvxpy c) (e # es) = map Inr lfs \<and> ks = map mk lfs"
          using l Inr by (intro exI[of _ "lf # lfs"]) simp
      next
        assume "\<exists>lfs. map (expression_to_cvxpy c) (e # es) = map Inr lfs \<and> ks = map mk lfs"
        then obtain lfs2 where
          m: "map (expression_to_cvxpy c) (e # es) = map Inr lfs2" "ks = map mk lfs2"
          by blast
        from m(1) Inr obtain rest where "lfs2 = lf # rest" "map (expression_to_cvxpy c) es = map Inr rest"
          by (auto simp: map_eq_Cons_conv Cons_eq_map_conv)
        with inj have "lfs2 = lf # lfs" by simp
        with m l Inr r show "flatten_all c mk (e # es) = Inr ks" by simp
      qed
    qed
  qed
qed

lemma flatten_all_append:
  "flatten_all c mk (xs @ ys) =
     (case flatten_all c mk xs of
        Inl err \<Rightarrow> Inl err
      | Inr ks \<Rightarrow> (case flatten_all c mk ys of Inl err \<Rightarrow> Inl err | Inr ks' \<Rightarrow> Inr (ks @ ks')))"
  by (induction xs) (auto split: sum.splits)

lemma fst_class_constraints:
  "fst (class_constraints ext c fs) =
     flatten_all c Le_zero (concat (map (add_class_constraints ext) fs))"
  by (induction fs) (auto simp: flatten_all_append Let_def split: sum.splits prod.splits)

lemma snd_class_constraints_Inr:
  "fst (class_constraints ext c fs) = Inr ks \<Longrightarrow>
     snd (class_constraints ext c fs) =
       map (\<lambda>f. f\<lparr>function_list_of_constraints := add_class_constraints ext f\<rparr>) fs"
  by (induction fs arbitrary: ks) (auto simp: Let_def split: sum.splits prod.splits)

lemma fst_compile:
  "fst (compile ext c self) =
     (case flatten_all c Objective_le (list_of_performance_metrics self) of
        Inl err \<Rightarrow> Inl err
      | Inr ms \<Rightarrow>
          (case flatten_all c Le_zero (list_of_conditions self) of
             Inl err \<Rightarrow> Inl err
           | Inr cs \<Rightarrow>
               (case flatten_all c Le_zero
                       (concat (map (add_class_constraints ext) (list_of_functions self))) of
                  Inl err \<Rightarrow> Inl err
                | Inr ks \<Rightarrow> Inr \<lparr>F_shape = Expression_counter c, G_shape = Point_counter c,
                                  constraints_list = ms @ cs @ ks\<rparr>)))"
  using fst_class_constraints[of ext c "list_of_functions self"]
  by (auto simp: compile_def split: sum.splits prod.splits)

lemma solve_solver_calls:
  assumes "fst (compile ext (classes w) self) = Inr prob"
  shows "solver_calls (snd (snd (solve ext solver self w))) = solver_calls w @ [(solver, prob)]"
proof -
  from assms obtain self1 where "compile ext (classes w) self = (Inr prob, self1)"
    by (cases "compile ext (classes w) self") simp
  then show ?thesis
    by (simp add: solve_def Let_def split: sum.splits prod.splits)
qed

lemma flatten_all_maps:
  "map (expression_to_cvxpy c) es = map Inr lfs \<Longrightarrow> flatten_all c mk es = Inr (map mk lfs)"
  using flatten_all_Inr_iff by blast

subsection \<open>Which expressions flatten\<close>

lemma add_item_Inr_ok:
  assumes "add_item lf (k, w) = Inr lf'" "shaped (Expression_counter c) (Point_counter c) lf"
  shows "key_ok c k"
proof (cases k)
  case (Expression_key fv i)
  with assms show ?thesis
    by (auto simp: shaped_def add_at_def split: if_splits sum.splits)
next
  case (Tuple_key ps)
  with assms obtain p1 p2 where ps: "ps = [p1, p2]"
    by (auto split: list.splits)
  from assms Tuple_key ps have "point_counter p1 < length (Gweights lf)"
    "point_counter p2 < length (Gweights lf ! point_counter p1)"
    by (auto simp: add_at2_def split: if_splits sum.splits)
  with assms Tuple_key ps show ?thesis
    by (auto simp: shaped_def list_all_length split: if_splits sum.splits)
next
  case (Number_key x)
  with assms show ?thesis by (auto split: if_splits)
next
  case Other_key
  with assms show ?thesis by simp
qed

lemma add_items_append:
  "add_items lf (xs @ ys) =
     (case add_items lf xs of Inl err \<Rightarrow> Inl err | Inr lf1 \<Rightarrow> add_items lf1 ys)"
  by (induction xs arbitrary: lf) (auto split: sum.splits)

lemma add_items_Inr_ok:
  assumes "add_items lf d = Inr lf'" "shaped (Expression_counter c) (Point_counter c) lf"
  shows "list_all (\<lambda>kw. key_ok c (fst kw)) d"
  using assms
proof (induction d arbitrary: lf)
  case Nil
  then show ?case by simp
next
  case (Cons kw d)
  obtain k w where kw: "kw = (k, w)" by (cases kw)
  from Cons.prems kw obtain lf1 where s1: "add_item lf (k, w) = Inr lf1"
    and s2: "add_items lf1 d = Inr lf'"
    by (auto split: sum.splits)
  have ok: "key_ok c k" by (rule add_item_Inr_ok[OF s1 Cons.prems(2)])
  from add_item_ok[OF ok Cons.prems(2), of w] s1
  have "shaped (Expression_counter c) (Point_counter c) lf1" by auto
  from Cons.IH[OF s2 this] ok kw show ?case by simp
qed

lemma well_formed_flattens:
  assumes "well_formed c e"
  shows "\<exists>lf. expression_to_cvxpy c e = Inr lf"
proof (cases "is_function_value e")
  case True
  with assms show ?thesis
    by (simp add: expression_to_cvxpy_def well_formed_def add_at_def zero_form_def)
next
  case False
  with assms have "list_all (\<lambda>kw. key_ok c (fst kw)) (decomposition_dict e)"
    by (simp add: well_formed_def)
  from add_items_ok[OF this shaped_zero_form] False show ?thesis
    by (auto simp: expression_to_cvxpy_def)
qed

lemma expression_to_cvxpy_Inr_iff:
  "(\<exists>lf. expression_to_cvxpy c e = Inr lf) \<longleftrightarrow> well_formed c e"
proof
  assume "\<exists>lf. expression_to_cvxpy c e = Inr lf"
  then obtain lf where r: "expression_to_cvxpy c e = Inr lf" ..
  show "well_formed c e"
  proof (cases "is_function_value e")
    case True
    with r show ?thesis
      by (auto simp: expression_to_cvxpy_def well_formed_def add_at_def zero_form_def
          split: if_splits sum.splits)
  next
    case False
    with r have "add_items (zero_form c) (decomposition_dict e) = Inr lf"
      by (simp add: expression_to_cvxpy_def)
    from add_items_Inr_ok[OF this shaped_zero_form] False show ?thesis
      by (simp add: well_formed_def)
  qed
next
  assume "well_formed c e"
  then show "\<exists>lf. expression_to_cvxpy c e = Inr lf"
    by (rule well_formed_flattens)
qed

lemma key_error_None: "key_error c k = None \<longleftrightarrow> key_ok c k"
  by (cases k) (auto simp: key_error_def split: list.splits)

lemma key_error_kinds:
  "key_error c k = Some TypeError \<longleftrightarrow> no_key_kind k"
  "key_error c k = Some AssertionError \<longleftrightarrow> asserted_key k"
  "key_error c k = Some ValueError \<longleftrightarrow> not_a_pair k"
  "key_error c k = Some IndexError \<longleftrightarrow> out_of_range c k"
  by (cases k; auto simp: key_error_def split: list.splits)+

lemma add_item_error:
  assumes "shaped (Expression_counter c) (Point_counter c) lf"
  shows "add_item lf (k, w) = Inl err \<longleftrightarrow> key_error c k = Some err"
proof (cases "key_ok c k")
  case True
  from add_item_ok[OF True assms, of w] True show ?thesis
    by (auto simp: key_error_None[symmetric])
next
  case False
  show ?thesis
  proof (cases k)
    case (Expression_key fv i)
    with assms show ?thesis
      by (auto simp: key_error_def add_at_def shaped_def split: sum.splits)
  next
    case (Tuple_key ps)
    show ?thesis
    proof (cases "\<exists>p1 p2. ps = [p1, p2]")
      case False
      then have "add_item lf (k, w) = Inl ValueError" "not_a_pair k" "\<not> asserted_key k"
        using Tuple_key by (auto split: list.splits simp: length_Suc_conv numeral_2_eq_2)
      then show ?thesis by (auto simp: key_error_def)
    next
      case True
      then obtain p1 p2 where ps: "ps = [p1, p2]" by blast
      from assms have r: "length (Gweights lf) = Point_counter c"
        "\<And>i. i < Point_counter c \<Longrightarrow> length (Gweights lf ! i) = Point_counter c"
        by (auto simp: shaped_def list_all_length)
      show ?thesis
        using Tuple_key ps r
        by (auto simp: key_error_def add_at2_def split: sum.splits)
    qed
  next
    case (Number_key x)
    then show ?thesis by (auto simp: key_error_def)
  next
    case Other_key
    then show ?thesis by (auto simp: key_error_def)
  qed
qed

lemma add_items_error:
  assumes "shaped (Expression_counter c) (Point_counter c) lf"
  shows "add_items lf d = Inl err \<longleftrightarrow>
     (\<exists>pre k w post. d = pre @ (k, w) # post \<and>
        list_all (\<lambda>kw. key_ok c (fst kw)) pre \<and> key_error c k = Some err)"
  using assms
proof (induction d arbitrary: lf)
  case Nil
  then show ?case by simp
next
  case (Cons kw d)
  obtain k w where kw: "kw = (k, w)" by (cases kw)
  show ?case
  proof (cases "add_item lf (k, w)")
    case (Inl e')
    then have ke: "key_error c k = Some e'"
      using add_item_error[OF Cons.prems] by blast
    then have nok: "\<not> key_ok c k"
      using key_error_None[of c k] by simp
    show ?thesis
    proof
      assume "add_items lf (kw # d) = Inl err"
      with Inl kw have "e' = err" by simp
      with ke show "\<exists>pre k w post. kw # d = pre @ (k, w) # post \<and>
        list_all (\<lambda>kw. key_ok c (fst kw)) pre \<and> key_error c k = Some err"
        using kw by (intro exI[of _ "[]"]) auto
    next
      assume "\<exists>pre k w post. kw # d = pre @ (k, w) # post \<and>
        list_all (\<lambda>kw. key_ok c (fst kw)) pre \<and> key_error c k = Some err"
      then obtain pre k' w' post where
        d: "kw # d = pre @ (k', w') # post" "list_all (\<lambda>kw. key_ok c (fst kw)) pre"
          "key_error c k' = Some err"
        by blast
      have "pre = []"
      proof (cases pre)
        case Nil then show ?thesis .
      next
        case (Cons a pre')
        with d kw nok show ?thesis by auto
      qed
      with d kw have "k' = k" by simp
      with d(3) ke have "e' = err" by simp
      with Inl kw show "add_items lf (kw # d) = Inl err" by simp
    qed
  next
    case (Inr lf1)
    have ok: "key_ok c k" by (rule add_item_Inr_ok[OF Inr Cons.prems])
    from add_item_ok[OF ok Cons.prems, of w] Inr
    have sh1: "shaped (Expression_counter c) (Point_counter c) lf1" by auto
    have nk: "key_error c k \<noteq> Some err" using ok key_error_None[of c k] by simp
    have "add_items lf (kw # d) = add_items lf1 d" using Inr kw by simp
    also have "\<dots> = Inl err \<longleftrightarrow>
       (\<exists>pre k w post. d = pre @ (k, w) # post \<and>
          list_all (\<lambda>kw. key_ok c (fst kw)) pre \<and> key_error c k = Some err)"
      by (rule Cons.IH[OF sh1])
    also have "\<dots> \<longleftrightarrow> (\<exists>pre k' w' post. kw # d = pre @ (k', w') # post \<and>
          list_all (\<lambda>kw. key_ok c (fst kw)) pre \<and> key_error c k' = Some err)"
    proof
      assume "\<exists>pre k w post. d = pre @ (k, w) # post \<and>
          list_all (\<lambda>kw. key_ok c (fst kw)) pre \<and> key_error c k = Some err"
      then obtain pre k' w' post where
        "d = pre @ (k', w') # post" "list_all (\<lambda>kw. key_ok c (fst kw)) pre"
        "key_error c k' = Some err"
        by blast
      then show "\<exists>pre k' w' post. kw # d = pre @ (k', w') # post \<and>
          list_all (\<lambda>kw. key_ok c (fst kw)) pre \<and> key_error c k' = Some err"
        using ok kw by (intro exI[of _ "kw # pre"] exI[of _ k'] exI[of _ w'] exI[of _ post]) simp
    next
      assume "\<exists>pre k' w' post. kw # d = pre @ (k', w') # post \<and>
          list_all (\<lambda>kw. key_ok c (fst kw)) pre \<and> key_error c k' = Some err"
      then obtain pre k' w' post where
        d: "kw # d = pre @ (k', w') # post" "list_all (\<lambda>kw. key_ok c (fst kw)) pre"
          "key_error c k' = Some err"
        by blast
      show "\<exists>pre k w post. d = pre @ (k, w) # post \<and>
          list_all (\<lambda>kw. key_ok c (fst kw)) pre \<and> key_error c k = Some err"
      proof (cases pre)
        case Nil
        with d kw nk show ?thesis by simp
      next
        case (Cons a pre')
        with d show ?thesis by auto
      qed
    qed
    finally show ?thesis .
  qed
qed

lemma composite_error:
  assumes "\<not> is_function_value e"
  shows "expression_to_cvxpy c e = Inl err \<longleftrightarrow>
     (\<exists>pre k w post. decomposition_dict e = pre @ (k, w) # post \<and>
        list_all (\<lambda>kw. key_ok c (fst kw)) pre \<and> key_error c k = Some err)"
  using assms add_items_error[OF shaped_zero_form, of c "decomposition_dict e" err]
  by (simp add: expression_to_cvxpy_def)

lemma function_value_error:
  assumes "is_function_value e"
  shows "expression_to_cvxpy c e = Inl err \<longleftrightarrow>
           err = IndexError \<and> \<not> expression_counter e < Expression_counter c"
  using assms
  by (auto simp: expression_to_cvxpy_def add_at_def zero_form_def split: sum.splits)

text \<open>
  C1. The part of \<open>solve\<close> that builds the cvxpy problem succeeds with a problem
  \<open>prob\<close> exactly when every performance metric, every initial condition and every
  constraint found in a function's \<open>list_of_constraints\<close> after its
  \<open>add_class_constraints\<close> flattens, and \<open>prob\<close> maximises the objective
  subject to \<open>objective <= M\<close> for the flattened metrics, then \<open>C <= 0\<close> for the
  flattened conditions, then \<open>K <= 0\<close> for the flattened constraints of the functions,
  in this order and with nothing else. Each function has then received the result of one
  call of \<open>add_class_constraints\<close>, and this problem is the one \<open>solve\<close> hands to
  the solver.
\<close>

theorem compile_builds_the_problem:
  "(fst (compile ext c self) = Inr prob \<longleftrightarrow>
     (\<exists>Ms Cs Ks.
        map (expression_to_cvxpy c) (list_of_performance_metrics self) = map Inr Ms \<and>
        map (expression_to_cvxpy c) (list_of_conditions self) = map Inr Cs \<and>
        map (expression_to_cvxpy c)
          (concat (map (add_class_constraints ext) (list_of_functions self))) = map Inr Ks \<and>
        prob = \<lparr>F_shape = Expression_counter c, G_shape = Point_counter c,
                constraints_list = map Objective_le Ms @ map Le_zero Cs @ map Le_zero Ks\<rparr>)) \<and>
   (fst (compile ext c self) = Inr prob \<longrightarrow>
      snd (compile ext c self) =
        self\<lparr>list_of_functions :=
               map (\<lambda>f. f\<lparr>function_list_of_constraints := add_class_constraints ext f\<rparr>)
                 (list_of_functions self)\<rparr>) \<and>
   (fst (compile ext (classes w) self) = Inr prob \<longrightarrow>
      solver_calls (snd (snd (solve ext solver self w))) = solver_calls w @ [(solver, prob)])"
proof (intro conjI impI iffI)
  assume "fst (compile ext (classes w) self) = Inr prob"
  then show "solver_calls (snd (snd (solve ext solver self w))) =
               solver_calls w @ [(solver, prob)]"
    by (rule solve_solver_calls)
next
  assume "fst (compile ext c self) = Inr prob"
  then obtain ms cs ks where
    m: "flatten_all c Objective_le (list_of_performance_metrics self) = Inr ms"
    and cc: "flatten_all c Le_zero (list_of_conditions self) = Inr cs"
    and k: "flatten_all c Le_zero
              (concat (map (add_class_constraints ext) (list_of_functions self))) = Inr ks"
    and p: "prob = \<lparr>F_shape = Expression_counter c, G_shape = Point_counter c,
                     constraints_list = ms @ cs @ ks\<rparr>"
    unfolding fst_compile by (auto split: sum.splits)
  from m cc k p show "\<exists>Ms Cs Ks.
        map (expression_to_cvxpy c) (list_of_performance_metrics self) = map Inr Ms \<and>
        map (expression_to_cvxpy c) (list_of_conditions self) = map Inr Cs \<and>
        map (expression_to_cvxpy c)
          (concat (map (add_class_constraints ext) (list_of_functions self))) = map Inr Ks \<and>
        prob = \<lparr>F_shape = Expression_counter c, G_shape = Point_counter c,
                constraints_list = map Objective_le Ms @ map Le_zero Cs @ map Le_zero Ks\<rparr>"
    unfolding flatten_all_Inr_iff by blast
next
  assume "\<exists>Ms Cs Ks.
        map (expression_to_cvxpy c) (list_of_performance_metrics self) = map Inr Ms \<and>
        map (expression_to_cvxpy c) (list_of_conditions self) = map Inr Cs \<and>
        map (expression_to_cvxpy c)
          (concat (map (add_class_constraints ext) (list_of_functions self))) = map Inr Ks \<and>
        prob = \<lparr>F_shape = Expression_counter c, G_shape = Point_counter c,
                constraints_list = map Objective_le Ms @ map Le_zero Cs @ map Le_zero Ks\<rparr>"
  then obtain Ms Cs Ks where
    m: "map (expression_to_cvxpy c) (list_of_performance_metrics self) = map Inr Ms"
    and cc: "map (expression_to_cvxpy c) (list_of_conditions self) = map Inr Cs"
    and k: "map (expression_to_cvxpy c)
              (concat (map (add_class_constraints ext) (list_of_functions self))) = map Inr Ks"
    and p: "prob = \<lparr>F_shape = Expression_counter c, G_shape = Point_counter c,
                constraints_list = map Objective_le Ms @ map Le_zero Cs @ map Le_zero Ks\<rparr>"
    by blast
  show "fst (compile ext c self) = Inr prob"
    unfolding fst_compile
    by (simp add: flatten_all_maps[OF m] flatten_all_maps[OF cc] flatten_all_maps[OF k] p)
next
  assume a: "fst (compile ext c self) = Inr prob"
  then obtain ks where "fst (class_constraints ext c (list_of_functions self)) = Inr ks"
    by (auto simp: compile_def split: sum.splits prod.splits)
  from snd_class_constraints_Inr[OF this] a
  show "snd (compile ext c self) =
        self\<lparr>list_of_functions :=
               map (\<lambda>f. f\<lparr>function_list_of_constraints := add_class_constraints ext f\<rparr>)
                 (list_of_functions self)\<rparr>"
    by (auto simp: compile_def split: sum.splits prod.splits)
qed

lemma example_flattened:
  "expression_to_cvxpy example_counters example_expression =
     Inr \<lparr>scalar = 7, Fweights = [0, 7], Gweights = [[0, 3], [0, 0]]\<rparr>"
  "expression_to_cvxpy example_counters example_function_value =
     Inr \<lparr>scalar = 0, Fweights = [1, 0], Gweights = [[0, 0], [0, 0]]\<rparr>"
  by (simp_all add: expression_to_cvxpy_def zero_form_def add_at_def add_at2_def
      example_counters_def example_expression_def example_function_value_def
      example_x0_def example_x1_def numeral_2_eq_2)

lemma example_shape:
  "Expression_counter example_counters = 2" "Point_counter example_counters = 2"
  by (simp_all add: example_counters_def)

theorem compile_builds_the_problem_witness:
  "fst (compile example_externals example_counters example_PEP) =
     Inr \<lparr>F_shape = 2, G_shape = 2,
          constraints_list =
            [Objective_le \<lparr>scalar = 0, Fweights = [1, 0], Gweights = [[0, 0], [0, 0]]\<rparr>,
             Le_zero \<lparr>scalar = 7, Fweights = [0, 7], Gweights = [[0, 3], [0, 0]]\<rparr>,
             Le_zero \<lparr>scalar = 7, Fweights = [0, 7], Gweights = [[0, 3], [0, 0]]\<rparr>]\<rparr> \<and>
   list_of_functions (snd (compile example_externals example_counters example_PEP)) =
     [example_function\<lparr>function_list_of_constraints := [example_expression]\<rparr>]"
proof -
  let ?prob = "\<lparr>F_shape = 2, G_shape = 2,
          constraints_list =
            [Objective_le \<lparr>scalar = 0, Fweights = [1, 0], Gweights = [[0, 0], [0, 0]]\<rparr>,
             Le_zero \<lparr>scalar = 7, Fweights = [0, 7], Gweights = [[0, 3], [0, 0]]\<rparr>,
             Le_zero \<lparr>scalar = 7, Fweights = [0, 7], Gweights = [[0, 3], [0, 0]]\<rparr>]\<rparr>"
  note t = compile_builds_the_problem[of example_externals example_counters example_PEP ?prob]
  have "\<exists>Ms Cs Ks.
        map (expression_to_cvxpy example_counters) (list_of_performance_metrics example_PEP) =
          map Inr Ms \<and>
        map (expression_to_cvxpy example_counters) (list_of_conditions example_PEP) = map Inr Cs \<and>
        map (expression_to_cvxpy example_counters)
          (concat (map (add_class_constraints example_externals) (list_of_functions example_PEP))) =
          map Inr Ks \<and>
        ?prob = \<lparr>F_shape = Expression_counter example_counters,
                  G_shape = Point_counter example_counters,
                  constraints_list = map Objective_le Ms @ map Le_zero Cs @ map Le_zero Ks\<rparr>"
    by (intro exI[of _ "[\<lparr>scalar = 0, Fweights = [1, 0], Gweights = [[0, 0], [0, 0]]\<rparr>]"]
              exI[of _ "[\<lparr>scalar = 7, Fweights = [0, 7], Gweights = [[0, 3], [0, 0]]\<rparr>]"]
              exI[of _ "[\<lparr>scalar = 7, Fweights = [0, 7], Gweights = [[0, 3], [0, 0]]\<rparr>]"])
       (simp add: example_flattened example_PEP_def example_externals_def example_shape)
  with t have r: "fst (compile example_externals example_counters example_PEP) = Inr ?prob"
    by blast
  with t have "snd (compile example_externals example_counters example_PEP) =
        example_PEP\<lparr>list_of_functions :=
               map (\<lambda>f. f\<lparr>function_list_of_constraints := add_class_constraints example_externals f\<rparr>)
                 (list_of_functions example_PEP)\<rparr>"
    by blast
  then have "list_of_functions (snd (compile example_externals example_counters example_PEP)) =
     [example_function\<lparr>function_list_of_constraints := [example_expression]\<rparr>]"
    by (simp add: example_PEP_def example_externals_def)
  with r show ?thesis by simp
qed

subsection \<open>Errors raised while compiling\<close>

lemma flatten_all_mk_cases:
  "(\<exists>err. flatten_all c mk es = Inl err \<and> flatten_all c mk' es = Inl err) \<or>
   (\<exists>ks ks'. flatten_all c mk es = Inr ks \<and> flatten_all c mk' es = Inr ks')"
  by (induction es) (auto split: sum.splits)

lemma flatten_all_first_error:
  "list_all (well_formed c) es1 \<Longrightarrow> expression_to_cvxpy c e = Inl err \<Longrightarrow>
     flatten_all c mk (es1 @ e # es2) = Inl err"
proof (induction es1)
  case Nil
  then show ?case by simp
next
  case (Cons a es1)
  then have "well_formed c a" by simp
  then obtain lf where "expression_to_cvxpy c a = Inr lf"
    using well_formed_flattens by blast
  with Cons show ?case by simp
qed

lemma fst_compile_Inl_iff:
  "fst (compile ext c self) = Inl err \<longleftrightarrow>
     flatten_all c Le_zero (compile_order ext self) = Inl err"
  using flatten_all_mk_cases[of c Objective_le "list_of_performance_metrics self" Le_zero]
  unfolding fst_compile compile_order_def flatten_all_append
  by (auto split: sum.splits)

lemma solve_compile_error:
  "fst (compile ext (classes w) self) = Inl err \<Longrightarrow>
     fst (solve ext solver self w) = Inl err \<and> snd (snd (solve ext solver self w)) = w"
  by (auto simp: solve_def split: prod.splits sum.splits)

text \<open>
  C5, as the code has it. Flattening an expression raises \<open>TypeError\<close> exactly when
  the expression is composite and the first entry of its decomposition that the loop
  does not accept has a key that is neither an Expression, nor a tuple, nor equal to 1.
  It raises \<open>AssertionError\<close> exactly when that first key is an Expression that is not
  a function value or a pair with a point that is not a leaf, \<open>ValueError\<close> exactly
  when it is a tuple that is not a pair, and \<open>IndexError\<close> exactly when it is a
  function value or a pair of leaf points with a counter out of range (or the expression
  is itself a function value with its counter out of range); it raises nothing else.
  When every expression flattened before it is well-formed, \<open>solve\<close> fails with the
  same error and nothing else has changed: the solver has not been called and no value
  has been assigned.
\<close>

theorem rejected_key_decides_the_error:
  "(expression_to_cvxpy c e = Inl TypeError \<longleftrightarrow>
      \<not> is_function_value e \<and>
      (\<exists>pre k weight post. decomposition_dict e = pre @ (k, weight) # post \<and>
         list_all (\<lambda>kw. key_ok c (fst kw)) pre \<and> no_key_kind k)) \<and>
   (expression_to_cvxpy c e = Inl AssertionError \<longleftrightarrow>
      \<not> is_function_value e \<and>
      (\<exists>pre k weight post. decomposition_dict e = pre @ (k, weight) # post \<and>
         list_all (\<lambda>kw. key_ok c (fst kw)) pre \<and> asserted_key k)) \<and>
   (expression_to_cvxpy c e = Inl ValueError \<longleftrightarrow>
      \<not> is_function_value e \<and>
      (\<exists>pre k weight post. decomposition_dict e = pre @ (k, weight) # post \<and>
         list_all (\<lambda>kw. key_ok c (fst kw)) pre \<and> not_a_pair k)) \<and>
   (expression_to_cvxpy c e = Inl IndexError \<longleftrightarrow>
      (is_function_value e \<and> \<not> expression_counter e < Expression_counter c) \<or>
      (\<not> is_function_value e \<and>
       (\<exists>pre k weight post. decomposition_dict e = pre @ (k, weight) # post \<and>
          list_all (\<lambda>kw. key_ok c (fst kw)) pre \<and> out_of_range c k))) \<and>
   expression_to_cvxpy c e \<noteq> Inl LinAlgError \<and>
   expression_to_cvxpy c e \<noteq> Inl SolverError \<and>
   (expression_to_cvxpy (classes w) e = Inl err \<and>
    compile_order ext self = es1 @ e # es2 \<and> list_all (well_formed (classes w)) es1 \<longrightarrow>
      fst (solve ext solver self w) = Inl err \<and>
      snd (snd (solve ext solver self w)) = w)"
proof (intro conjI impI)
  show "expression_to_cvxpy c e = Inl TypeError \<longleftrightarrow>
      \<not> is_function_value e \<and>
      (\<exists>pre k weight post. decomposition_dict e = pre @ (k, weight) # post \<and>
         list_all (\<lambda>kw. key_ok c (fst kw)) pre \<and> no_key_kind k)"
    using composite_error[of e c TypeError] function_value_error[of e c TypeError]
    by (cases "is_function_value e") (simp_all add: key_error_kinds)
  show "expression_to_cvxpy c e = Inl AssertionError \<longleftrightarrow>
      \<not> is_function_value e \<and>
      (\<exists>pre k weight post. decomposition_dict e = pre @ (k, weight) # post \<and>
         list_all (\<lambda>kw. key_ok c (fst kw)) pre \<and> asserted_key k)"
    using composite_error[of e c AssertionError] function_value_error[of e c AssertionError]
    by (cases "is_function_value e") (simp_all add: key_error_kinds)
  show "expression_to_cvxpy c e = Inl ValueError \<longleftrightarrow>
      \<not> is_function_value e \<and>
      (\<exists>pre k weight post. decomposition_dict e = pre @ (k, weight) # post \<and>
         list_all (\<lambda>kw. key_ok c (fst kw)) pre \<and> not_a_pair k)"
    using composite_error[of e c ValueError] function_value_error[of e c ValueError]
    by (cases "is_function_value e") (simp_all add: key_error_kinds)
  show "expression_to_cvxpy c e = Inl IndexError \<longleftrightarrow>
      (is_function_value e \<and> \<not> expression_counter e < Expression_counter c) \<or>
      (\<not> is_function_value e \<and>
       (\<exists>pre k weight post. decomposition_dict e = pre @ (k, weight) # post \<and>
          list_all (\<lambda>kw. key_ok c (fst kw)) pre \<and> out_of_range c k))"
    using composite_error[of e c IndexError] function_value_error[of e c IndexError]
    by (cases "is_function_value e") (simp_all add: key_error_kinds)
  show "expression_to_cvxpy c e \<noteq> Inl LinAlgError"
    using composite_error[of e c LinAlgError] function_value_error[of e c LinAlgError]
    by (cases "is_function_value e") (auto simp: key_error_def split: if_splits)
  show "expression_to_cvxpy c e \<noteq> Inl SolverError"
    using composite_error[of e c SolverError] function_value_error[of e c SolverError]
    by (cases "is_function_value e") (auto simp: key_error_def split: if_splits)
next
  assume a: "expression_to_cvxpy (classes w) e = Inl err \<and>
    compile_order ext self = es1 @ e # es2 \<and> list_all (well_formed (classes w)) es1"
  then have "flatten_all (classes w) Le_zero (compile_order ext self) = Inl err"
    by (simp add: flatten_all_first_error)
  then have "fst (compile ext (classes w) self) = Inl err"
    by (simp add: fst_compile_Inl_iff)
  from solve_compile_error[OF this]
  show "fst (solve ext solver self w) = Inl err"
    "snd (snd (solve ext solver self w)) = w" by auto
qed

lemma example_well_formed:
  "well_formed example_counters example_expression"
  "well_formed example_counters example_function_value"
  by (simp_all add: well_formed_def example_counters_def example_expression_def
      example_function_value_def example_x0_def example_x1_def)

theorem rejected_key_decides_the_error_witness:
  "expression_to_cvxpy example_counters malformed_expression = Inl TypeError \<and>
   expression_to_cvxpy example_counters non_leaf_pair_expression = Inl AssertionError \<and>
   expression_to_cvxpy example_counters triple_expression = Inl ValueError \<and>
   fst (solve example_externals ''SCS'' malformed_PEP example_world) = Inl TypeError \<and>
   snd (snd (solve example_externals ''SCS'' malformed_PEP example_world)) = example_world"
proof -
  note t = rejected_key_decides_the_error[where c = example_counters
      and e = malformed_expression and w = example_world and ext = example_externals
      and self = malformed_PEP and ?es1.0 = "[example_function_value, example_expression]"
      and ?es2.0 = "[example_expression]" and solver = "''SCS''" and err = TypeError]
  have "\<not> is_function_value malformed_expression \<and>
      (\<exists>pre k weight post. decomposition_dict malformed_expression = pre @ (k, weight) # post \<and>
         list_all (\<lambda>kw. key_ok example_counters (fst kw)) pre \<and> no_key_kind k)"
    by (intro conjI exI[of _ "[(Number_key 1, 2)]"] exI[of _ Other_key] exI[of _ 1] exI[of _ "[]"])
       (simp_all add: malformed_expression_def)
  with t have r: "expression_to_cvxpy example_counters malformed_expression = Inl TypeError"
    by blast
  have "\<not> is_function_value non_leaf_pair_expression \<and>
      (\<exists>pre k weight post.
         decomposition_dict non_leaf_pair_expression = pre @ (k, weight) # post \<and>
         list_all (\<lambda>kw. key_ok example_counters (fst kw)) pre \<and> asserted_key k)"
    by (intro conjI exI[of _ "[(Number_key 1, 2)]"]
          exI[of _ "Tuple_key [example_x0,
                      \<lparr>point_id = 4, point_is_leaf = False, point_counter = 0\<rparr>]"]
          exI[of _ 1] exI[of _ "[]"])
       (simp_all add: non_leaf_pair_expression_def)
  with rejected_key_decides_the_error[where c = example_counters
      and e = non_leaf_pair_expression]
  have a: "expression_to_cvxpy example_counters non_leaf_pair_expression = Inl AssertionError"
    by blast
  have "\<not> is_function_value triple_expression \<and>
      (\<exists>pre k weight post. decomposition_dict triple_expression = pre @ (k, weight) # post \<and>
         list_all (\<lambda>kw. key_ok example_counters (fst kw)) pre \<and> not_a_pair k)"
    by (intro conjI exI[of _ "[]"] exI[of _ "Tuple_key [example_x0, example_x1, example_x0]"]
          exI[of _ 1] exI[of _ "[]"])
       (simp_all add: triple_expression_def)
  with rejected_key_decides_the_error[where c = example_counters and e = triple_expression]
  have v: "expression_to_cvxpy example_counters triple_expression = Inl ValueError"
    by blast
  have c: "classes example_world = example_counters"
    by (simp add: example_world_def)
  have o: "compile_order example_externals malformed_PEP =
      [example_function_value, example_expression] @ malformed_expression # [example_expression]"
    by (simp add: compile_order_def malformed_PEP_def example_PEP_def example_externals_def)
  have "list_all (well_formed example_counters) [example_function_value, example_expression]"
    by (simp add: example_well_formed)
  with t r c o a v show ?thesis by simp
qed

text \<open>
  The claim C5 as worded fails: a composite expression whose only key is an Expression
  that is not a function value (so a key that is none of the three kinds) trips the
  assertion of the first branch, and the error is an \<open>AssertionError\<close>.
\<close>

theorem nested_expression_counterexample:
  "(Expression_key False 0, 1) \<in> set (decomposition_dict nested_expression) \<and>
   \<not> recognised (Expression_key False 0) \<and>
   expression_to_cvxpy example_counters nested_expression = Inl AssertionError"
  by (simp add: nested_expression_def expression_to_cvxpy_def)

subsection \<open>Point pairs\<close>

lemma composite_G_weights:
  assumes "\<not> is_function_value e" "expression_to_cvxpy c e = Inr lf"
    "i < Point_counter c" "j < Point_counter c"
  shows "Gweights lf ! i ! j = G_weight (decomposition_dict e) i j"
proof -
  from assms have r: "add_items (zero_form c) (decomposition_dict e) = Inr lf"
    by (simp add: expression_to_cvxpy_def)
  from add_items_Inr_ok[OF r shaped_zero_form]
  have "list_all (\<lambda>kw. key_ok c (fst kw)) (decomposition_dict e)" .
  from add_items_ok[OF this shaped_zero_form] r
  have "Gweights lf ! i ! j = Gweights (zero_form c) ! i ! j + G_weight (decomposition_dict e) i j"
    by auto
  with assms(3,4) show ?thesis by (simp add: zero_form_def)
qed

text \<open>
  C10. An accepted entry whose key is the pair \<open>(point1, point2)\<close> adds its weight to
  the cell \<open>(point1.counter, point2.counter)\<close> of \<open>Gweights\<close> and leaves every other
  cell, the transposed one included, and \<open>Fweights\<close> and the scalar as they were. So
  in the flattened form of a composite expression the cell \<open>(i, j)\<close> holds the sum of
  the weights of the pairs with counters \<open>(i, j)\<close> in this order, and the matrix need
  not be symmetric: there is an expression whose cells \<open>(0, 1)\<close> and \<open>(1, 0)\<close> differ.
\<close>

theorem tuple_key_adds_to_one_cell:
  "(add_item lf (Tuple_key [point1, point2], weight) = Inr lf' \<longrightarrow>
      Gweights lf' ! i ! j =
        Gweights lf ! i ! j +
        (if i = point_counter point1 \<and> j = point_counter point2 then weight else 0) \<and>
      Fweights lf' = Fweights lf \<and> scalar lf' = scalar lf) \<and>
   (\<not> is_function_value e \<and> expression_to_cvxpy c e = Inr lf0 \<and>
    i < Point_counter c \<and> j < Point_counter c \<longrightarrow>
      Gweights lf0 ! i ! j = G_weight (decomposition_dict e) i j) \<and>
   (\<exists>c0 e0 lf1. expression_to_cvxpy c0 e0 = Inr lf1 \<and>
      Gweights lf1 ! 0 ! 1 \<noteq> Gweights lf1 ! 1 ! 0)"
proof (intro conjI impI)
  assume a: "add_item lf (Tuple_key [point1, point2], weight) = Inr lf'"
  then have r: "point_counter point1 < length (Gweights lf)"
    "point_counter point2 < length (Gweights lf ! point_counter point1)"
    by (auto simp: add_at2_def split: if_splits sum.splits)
  from a r have G: "Gweights lf' = (Gweights lf)[point_counter point1 :=
       (Gweights lf ! point_counter point1)[point_counter point2 :=
          Gweights lf ! point_counter point1 ! point_counter point2 + weight]]"
    by (auto simp: add_at2_def split: if_splits sum.splits)
  show "Gweights lf' ! i ! j =
        Gweights lf ! i ! j +
        (if i = point_counter point1 \<and> j = point_counter point2 then weight else 0)"
    using r by (simp add: G nth_list_update)
  show "Fweights lf' = Fweights lf" "scalar lf' = scalar lf"
    using a by (auto simp: add_at2_def split: if_splits sum.splits)
next
  assume "\<not> is_function_value e \<and> expression_to_cvxpy c e = Inr lf0 \<and>
    i < Point_counter c \<and> j < Point_counter c"
  then show "Gweights lf0 ! i ! j = G_weight (decomposition_dict e) i j"
    using composite_G_weights by blast
next
  show "\<exists>c0 e0 lf1. expression_to_cvxpy c0 e0 = Inr lf1 \<and>
      Gweights lf1 ! 0 ! 1 \<noteq> Gweights lf1 ! 1 ! 0"
    by (intro exI[of _ example_counters] exI[of _ example_expression]
        exI[of _ "\<lparr>scalar = 7, Fweights = [0, 7], Gweights = [[0, 3], [0, 0]]\<rparr>"])
       (simp add: example_flattened)
qed

theorem tuple_key_adds_to_one_cell_witness:
  "add_item (zero_form example_counters) (Tuple_key [example_x0, example_x1], 3) =
     Inr \<lparr>scalar = 0, Fweights = [0, 0], Gweights = [[0, 3], [0, 0]]\<rparr> \<and>
   Gweights \<lparr>scalar = 0, Fweights = [0, 0], Gweights = [[0, 3], [0, 0]]\<rparr> ! 1 ! 0 =
     Gweights (zero_form example_counters) ! 1 ! 0 \<and>
   G_weight (decomposition_dict example_expression) 0 1 = 3 \<and>
   G_weight (decomposition_dict example_expression) 1 0 = 0"
proof -
  let ?lf' = "\<lparr>scalar = 0, Fweights = [0, 0], Gweights = [[0, 3], [0, 0]]\<rparr>"
  let ?lf0 = "\<lparr>scalar = 7, Fweights = [0, 7], Gweights = [[0, 3], [0, 0]]\<rparr>"
  have a: "add_item (zero_form example_counters) (Tuple_key [example_x0, example_x1], 3) = Inr ?lf'"
    by (simp add: zero_form_def add_at2_def example_counters_def example_x0_def example_x1_def
        numeral_2_eq_2)
  have x: "point_counter example_x0 = 0" "point_counter example_x1 = 1"
    by (simp_all add: example_x0_def example_x1_def)
  from tuple_key_adds_to_one_cell[of "zero_form example_counters" example_x0 example_x1 3 ?lf'
      1 0 example_expression example_counters ?lf0] a x
  have "Gweights ?lf' ! 1 ! 0 = Gweights (zero_form example_counters) ! 1 ! 0"
    by (simp add: zero_form_def example_counters_def numeral_2_eq_2)
  moreover have nf: "\<not> is_function_value example_expression"
    by (simp add: example_expression_def)
  from tuple_key_adds_to_one_cell[of "zero_form example_counters" example_x0 example_x1 3 ?lf'
      0 1 example_expression example_counters ?lf0] nf
  have "G_weight (decomposition_dict example_expression) 0 1 = 3"
    by (simp add: example_flattened example_shape)
  moreover from tuple_key_adds_to_one_cell[of "zero_form example_counters" example_x0 example_x1 3 ?lf'
      1 0 example_expression example_counters ?lf0] nf
  have "G_weight (decomposition_dict example_expression) 1 0 = 0"
    by (simp add: example_flattened example_shape)
  ultimately show ?thesis using a by simp
qed

subsection \<open>A new instance\<close>

lemma set_initial_points_counters:
  "set_initial_points n self c = (xs, self', c') \<Longrightarrow>
     map point_counter xs = [Point_counter c ..< Point_counter c + n] \<and>
     list_of_points self' = list_of_points self @ xs \<and>
     Point_counter c' = Point_counter c + n \<and>
     PEP_counter c' = PEP_counter c \<and>
     list_all point_is_leaf xs"
proof (induction n arbitrary: self c xs self' c')
  case 0
  then show ?case by simp
next
  case (Suc n)
  obtain x self1 c1 where s1: "set_initial_point self c = (x, self1, c1)"
    by (cases "set_initial_point self c") auto
  obtain ys self2 c2 where s2: "set_initial_points n self1 c1 = (ys, self2, c2)"
    by (cases "set_initial_points n self1 c1") auto
  from Suc.prems s1 s2 have eqs: "xs = x # ys" "self' = self2" "c' = c2" by auto
  from s1 have x: "point_counter x = Point_counter c" "point_is_leaf x"
    "list_of_points self1 = list_of_points self @ [x]"
    "Point_counter c1 = Point_counter c + 1" "PEP_counter c1 = PEP_counter c"
    by (auto simp: set_initial_point_def Point_leaf_def)
  from Suc.IH[OF s2] x eqs show ?case
    by (simp add: upt_rec[of "Point_counter c"])
qed

lemma PEP_init_fields:
  "Point_counter (snd (PEP_init c)) = 0" "Expression_counter (snd (PEP_init c)) = 0"
  "Function_counter (snd (PEP_init c)) = 0" "PEP_counter (snd (PEP_init c)) = PEP_counter c + 1"
  "list_of_points (fst (PEP_init c)) = []" "list_of_functions (fst (PEP_init c)) = []"
  "list_of_conditions (fst (PEP_init c)) = []"
  "list_of_performance_metrics (fst (PEP_init c)) = []"
  "counter (fst (PEP_init c)) = PEP_counter c"
  by (simp_all add: PEP_init_def Let_def)

text \<open>
  C6, as the code has it. From any state of the class counters, \<open>PEP()\<close> sets
  \<open>Point.counter\<close>, \<open>Expression.counter\<close> and \<open>Function.counter\<close> to zero. So when
  an instance is created and mints \<open>n\<close> leaf points, and then a second instance is
  created and mints \<open>m\<close> leaf points, the leaves of the first have the indices
  \<open>0, ..., n - 1\<close> and those of the second the indices \<open>0, ..., m - 1\<close>, whatever
  \<open>n\<close> and the counters before were: both use the indices below \<open>min n m\<close>. The
  counters belong to the classes, not to an instance: a leaf the first instance mints
  after that takes the index \<open>m\<close>, the next one of the second instance.
\<close>

theorem PEP_init_resets_counters:
  "(case PEP_init c of (pep1, c1) \<Rightarrow>
      case set_initial_points n pep1 c1 of (xs, pep1', c2) \<Rightarrow>
      case PEP_init c2 of (pep2, c3) \<Rightarrow>
      case set_initial_points m pep2 c3 of (ys, pep2', c4) \<Rightarrow>
        Point_counter c1 = 0 \<and> Expression_counter c1 = 0 \<and> Function_counter c1 = 0 \<and>
        map point_counter xs = [0..<n] \<and> list_of_points pep1' = xs \<and>
        Point_counter c3 = 0 \<and> Expression_counter c3 = 0 \<and> Function_counter c3 = 0 \<and>
        map point_counter ys = [0..<m] \<and> list_of_points pep2' = ys \<and>
        counter pep2 = counter pep1 + 1 \<and>
        set (map point_counter xs) \<inter> set (map point_counter ys) = {..<min n m} \<and>
        point_counter (fst (set_initial_point pep1' c4)) = m \<and>
        list_of_points (fst (snd (set_initial_point pep1' c4))) =
          xs @ [fst (set_initial_point pep1' c4)])"
proof -
  obtain pep1 c1 where i1: "PEP_init c = (pep1, c1)" by (cases "PEP_init c")
  obtain xs pep1' c2 where s1: "set_initial_points n pep1 c1 = (xs, pep1', c2)"
    by (cases "set_initial_points n pep1 c1") auto
  obtain pep2 c3 where i2: "PEP_init c2 = (pep2, c3)" by (cases "PEP_init c2")
  obtain ys pep2' c4 where s2: "set_initial_points m pep2 c3 = (ys, pep2', c4)"
    by (cases "set_initial_points m pep2 c3") auto
  have f1: "Point_counter c1 = 0" "Expression_counter c1 = 0" "Function_counter c1 = 0"
    "list_of_points pep1 = []" "counter pep1 = PEP_counter c" "PEP_counter c1 = PEP_counter c + 1"
    using PEP_init_fields[of c] i1 by simp_all
  have f2: "Point_counter c3 = 0" "Expression_counter c3 = 0" "Function_counter c3 = 0"
    "list_of_points pep2 = []" "counter pep2 = PEP_counter c2"
    using PEP_init_fields[of c2] i2 by simp_all
  note r1 = set_initial_points_counters[OF s1] and r2 = set_initial_points_counters[OF s2]
  have "set (map point_counter xs) \<inter> set (map point_counter ys) = {..<min n m}"
    using r1 r2 f1 f2 by auto
  moreover have "point_counter (fst (set_initial_point pep1' c4)) = m"
    "list_of_points (fst (snd (set_initial_point pep1' c4))) =
       xs @ [fst (set_initial_point pep1' c4)]"
    using r1 r2 f1 f2 by (simp_all add: set_initial_point_def Point_leaf_def)
  moreover from r1 r2 f1 f2
  have "Point_counter c1 = 0 \<and> Expression_counter c1 = 0 \<and> Function_counter c1 = 0 \<and>
        map point_counter xs = [0..<n] \<and> list_of_points pep1' = xs \<and>
        Point_counter c3 = 0 \<and> Expression_counter c3 = 0 \<and> Function_counter c3 = 0 \<and>
        map point_counter ys = [0..<m] \<and> list_of_points pep2' = ys \<and>
        counter pep2 = counter pep1 + 1"
    by simp
  ultimately show ?thesis
    unfolding i1 s1 i2 s2 prod.case by blast
qed

theorem PEP_init_resets_counters_witness:
  "map point_counter
     (fst (set_initial_points 2 (fst (PEP_init example_counters))
        (snd (PEP_init example_counters)))) = [0, 1]"
proof -
  have "[0..<2] = [0, Suc 0]" by (simp add: upt_rec numeral_2_eq_2)
  with PEP_init_resets_counters[where c = example_counters and n = 2 and m = 0] show ?thesis
    by (auto split: prod.splits)
qed

text \<open>
  The claim C6 as worded fails: the leaf indices of two instances created in sequence are
  not disjoint, both hold a leaf with index 0; and when the first instance mints a leaf
  once the second has been created, it holds two leaves with index 0.
\<close>

theorem shared_index_counterexample:
  "map point_counter (fst first_run) = [0] \<and>
   map point_counter (fst second_run) = [0] \<and>
   set (map point_counter (fst first_run)) \<inter> set (map point_counter (fst second_run)) \<noteq> {} \<and>
   map point_counter (list_of_points (fst (snd interleaved))) = [0, 0]"
proof -
  have f: "first_run =
    ([\<lparr>point_id = 9, point_is_leaf = True, point_counter = 0\<rparr>],
     \<lparr>counter = 1, list_of_functions = [],
        list_of_points = [\<lparr>point_id = 9, point_is_leaf = True, point_counter = 0\<rparr>],
        list_of_conditions = [], list_of_performance_metrics = []\<rparr>,
     \<lparr>Point_counter = 1, Expression_counter = 0, Function_counter = 0, PEP_counter = 2,
        next_id = 10\<rparr>)"
    by (simp add: first_run_def set_initial_point_def Point_leaf_def PEP_init_def Let_def
        example_counters_def)
  have s: "map point_counter (fst second_run) = [0]"
    by (simp add: second_run_def f set_initial_point_def Point_leaf_def PEP_init_def Let_def)
  have i: "map point_counter (list_of_points (fst (snd interleaved))) = [0, 0]"
    by (simp add: interleaved_def f set_initial_point_def Point_leaf_def PEP_init_def Let_def)
  have g: "map point_counter (fst first_run) = [0]"
    by (simp add: f)
  from g s i show ?thesis by (simp del: set_map)
qed

subsection \<open>The assignment loops\<close>

lemma assigned_empty: "assigned pv Fv {} {} s = s"
  by (simp add: assigned_def)

lemma assigned_assigned:
  "assigned pv Fv A E (assigned pv Fv A' E' s) = assigned pv Fv (A \<union> A') (E \<union> E') s"
  by (auto simp: assigned_def fun_eq_iff)

lemma for_each_assigned:
  assumes step: "\<And>x t u t'. x \<in> set xs \<Longrightarrow> body x t = (Inr u, t') \<Longrightarrow>
                   ok x \<and> t' = assigned pv Fv (PA x) (PE x) t"
    and run: "for_each body xs s = (Inr u, s')"
  shows "list_all ok xs \<and>
         s' = assigned pv Fv (\<Union>x \<in> set xs. PA x) (\<Union>x \<in> set xs. PE x) s"
  using assms
proof (induction xs arbitrary: s)
  case Nil
  then show ?case by (simp add: assigned_empty)
next
  case (Cons x xs)
  from Cons.prems(2) obtain v s1 where b: "body x s = (Inr v, s1)"
    and r: "for_each body xs s1 = (Inr u, s')"
    by (auto split: prod.splits sum.splits)
  from Cons.prems(1)[OF _ b] have x: "ok x" "s1 = assigned pv Fv (PA x) (PE x) s"
    by auto
  have "list_all ok xs \<and>
        s' = assigned pv Fv (\<Union>x \<in> set xs. PA x) (\<Union>x \<in> set xs. PE x) s1"
    by (rule Cons.IH[OF _ r]) (rule Cons.prems(1), auto)
  with x show ?case
    by (simp add: assigned_assigned Un_commute)
qed

lemma for_each_error:
  "for_each body xs s = (Inl e, s') \<Longrightarrow> \<exists>x \<in> set xs. \<exists>t. body x t = (Inl e, s')"
  by (induction xs arbitrary: s) (auto split: prod.splits sum.splits)

lemma set_point_value_Inr:
  assumes "set_point_value pv p s = (Inr u, s')"
  shows "point_in_range pv p \<and> s' = assigned pv Fv {p} {} s"
  using assms
  by (auto simp: set_point_value_def column_def point_in_range_def assigned_def fun_eq_iff
      split: if_splits sum.splits)

lemma set_function_value_Inr:
  assumes "set_function_value Fv e s = (Inr u, s')"
  shows "value_in_range Fv e \<and> s' = assigned pv Fv {} {e} s"
  using assms
  by (auto simp: set_function_value_def value_in_range_def assigned_def fun_eq_iff
      split: if_splits option.splits)

lemma set_triplet_Inr:
  assumes "set_triplet pv Fv (p, g, e) s = (Inr u, s')"
  shows "(point_in_range pv p \<and> point_in_range pv g \<and> value_in_range Fv e) \<and>
         s' = assigned pv Fv {p, g} {e} s"
proof -
  from assms obtain u1 s1 u2 s2 where
    a: "set_point_value pv p s = (Inr u1, s1)"
    and b: "set_point_value pv g s1 = (Inr u2, s2)"
    and c: "set_function_value Fv e s2 = (Inr u, s')"
    by (auto simp: set_triplet_def split: prod.splits sum.splits)
  from set_point_value_Inr[OF a, of Fv] set_point_value_Inr[OF b, of Fv]
    set_function_value_Inr[OF c, of pv]
  show ?thesis by (simp add: assigned_assigned insert_commute)
qed

lemma set_function_Inr:
  assumes "set_function pv Fv f s = (Inr u, s')"
  shows "(function_is_leaf f \<longrightarrow>
            list_all (\<lambda>(p, g, e). point_in_range pv p \<and> point_in_range pv g \<and> value_in_range Fv e)
              (function_list_of_points f)) \<and>
         s' = assigned pv Fv
                (if function_is_leaf f
                 then (\<Union>(p, g, e) \<in> set (function_list_of_points f). {p, g}) else {})
                (if function_is_leaf f
                 then (\<Union>(p, g, e) \<in> set (function_list_of_points f). {e}) else {}) s"
proof (cases "function_is_leaf f")
  case False
  with assms show ?thesis by (simp add: set_function_def assigned_empty)
next
  case True
  with assms have r: "for_each (set_triplet pv Fv) (function_list_of_points f) s = (Inr u, s')"
    by (simp add: set_function_def)
  have "list_all (\<lambda>(p, g, e). point_in_range pv p \<and> point_in_range pv g \<and> value_in_range Fv e)
          (function_list_of_points f) \<and>
        s' = assigned pv Fv
               (\<Union>t \<in> set (function_list_of_points f). case t of (p, g, e) \<Rightarrow> {p, g})
               (\<Union>t \<in> set (function_list_of_points f). case t of (p, g, e) \<Rightarrow> {e}) s"
  proof (rule for_each_assigned[OF _ r])
    fix x t u t'
    assume "set_triplet pv Fv x t = (Inr u, t')"
    then show "(case x of (p, g, e) \<Rightarrow>
                  point_in_range pv p \<and> point_in_range pv g \<and> value_in_range Fv e) \<and>
               t' = assigned pv Fv (case x of (p, g, e) \<Rightarrow> {p, g})
                      (case x of (p, g, e) \<Rightarrow> {e}) t"
      using set_triplet_Inr by (cases x) auto
  qed
  with True show ?thesis by simp
qed

lemma set_registered_points:
  "set (registered_points self) =
     set (list_of_points self) \<union>
     (\<Union>f \<in> set (list_of_functions self).
        if function_is_leaf f
        then (\<Union>(p, g, e) \<in> set (function_list_of_points f). {p, g}) else {})"
  by (auto simp: registered_points_def split: if_splits) blast+

lemma set_registered_function_values:
  "set (registered_function_values self) =
     (\<Union>f \<in> set (list_of_functions self).
        if function_is_leaf f
        then (\<Union>(p, g, e) \<in> set (function_list_of_points f). {e}) else {})"
  by (auto simp: registered_function_values_def split: if_splits) force

lemma assign_values_Inr:
  assumes "assign_values pv Fv self s = (Inr u, s')"
  shows "s' = assigned pv Fv (set (registered_points self))
                (set (registered_function_values self)) s"
    and "list_all (point_in_range pv) (registered_points self)"
    and "list_all (value_in_range Fv) (registered_function_values self)"
proof -
  from assms obtain u1 s1 where
    a: "for_each (set_point_value pv) (list_of_points self) s = (Inr u1, s1)"
    and b: "for_each (set_function pv Fv) (list_of_functions self) s1 = (Inr u, s')"
    by (auto simp: assign_values_def split: prod.splits sum.splits)
  have A: "list_all (point_in_range pv) (list_of_points self) \<and>
        s1 = assigned pv Fv (\<Union>p \<in> set (list_of_points self). {p})
               (\<Union>p \<in> set (list_of_points self). {}) s"
    by (rule for_each_assigned[OF _ a]) (rule set_point_value_Inr)
  have B: "list_all (\<lambda>f. function_is_leaf f \<longrightarrow>
            list_all (\<lambda>(p, g, e). point_in_range pv p \<and> point_in_range pv g \<and> value_in_range Fv e)
              (function_list_of_points f)) (list_of_functions self) \<and>
        s' = assigned pv Fv
               (\<Union>f \<in> set (list_of_functions self).
                  if function_is_leaf f
                  then (\<Union>(p, g, e) \<in> set (function_list_of_points f). {p, g}) else {})
               (\<Union>f \<in> set (list_of_functions self).
                  if function_is_leaf f
                  then (\<Union>(p, g, e) \<in> set (function_list_of_points f). {e}) else {}) s1"
    by (rule for_each_assigned[OF _ b]) (rule set_function_Inr)
  from A B show "s' = assigned pv Fv (set (registered_points self))
                (set (registered_function_values self)) s"
    by (simp add: assigned_assigned set_registered_points set_registered_function_values
        Un_commute)
  from A B show "list_all (point_in_range pv) (registered_points self)"
    by (auto simp: registered_points_def list_all_iff split: if_splits)
  from B show "list_all (value_in_range Fv) (registered_function_values self)"
    by (auto simp: registered_function_values_def list_all_iff split: if_splits)
qed

subsection \<open>Reconstruction\<close>

lemma np_min_Inr:
  "np_min xs = Inr m \<Longrightarrow> xs \<noteq> [] \<and> m = Min (set xs)"
proof (cases xs)
  case Nil
  assume "np_min xs = Inr m"
  with Nil show ?thesis by (simp add: np_min_def)
next
  case (Cons x rest)
  assume "np_min xs = Inr m"
  with Cons have "m = fold min rest x" by (simp add: np_min_def)
  also have "\<dots> = Min (set (x # rest))" by (simp only: Min.set_eq_fold)
  finally show ?thesis using Cons by simp
qed

lemma np_min_Inl: "np_min xs = Inl e \<Longrightarrow> xs = [] \<and> e = ValueError"
  by (cases xs) (auto simp: np_min_def)

lemma np_min_below:
  "np_min xs = Inr m \<Longrightarrow> (m < t) = (\<exists>x \<in> set xs. x < t)"
  by (auto dest!: np_min_Inr simp: Min_less_iff)

lemma assign_values_error:
  assumes "assign_values pv Fv self s = (Inl e, s')"
  shows "e = IndexError \<or> e = TypeError"
proof -
  have p: "\<And>x t. set_point_value pv x t = (Inl e, s') \<Longrightarrow> e = IndexError \<or> e = TypeError"
    by (auto simp: set_point_value_def column_def split: if_splits sum.splits)
  have v: "\<And>x t. set_function_value Fv x t = (Inl e, s') \<Longrightarrow> e = IndexError \<or> e = TypeError"
    by (auto simp: set_function_value_def split: if_splits option.splits)
  have t: "\<And>x t. set_triplet pv Fv x t = (Inl e, s') \<Longrightarrow> e = IndexError \<or> e = TypeError"
    using p v by (auto simp: set_triplet_def split: prod.splits sum.splits)
  have f: "\<And>x t. set_function pv Fv x t = (Inl e, s') \<Longrightarrow> e = IndexError \<or> e = TypeError"
    using t by (auto simp: set_function_def split: if_splits dest!: for_each_error)
  from assms show ?thesis
    using p f by (auto simp: assign_values_def split: prod.splits sum.splits dest!: for_each_error)
qed

text \<open>
  C3. Given the eigenvalues numpy returns for \<open>G_value\<close>, the reconstruction fails with
  an \<open>AssertionError\<close> exactly when one of them, so the least, is below \<open>-1e-4\<close>.
  Otherwise (and when there is an eigenvalue at all) it goes on to the assignment loops
  with every negative eigenvalue replaced by zero, and the outcome is the one it would
  have been had numpy returned the clipped eigenvalues: an eigenvalue in
  \<open>[-1e-4, 0)\<close> has the effect of the eigenvalue 0, and nothing in the result records
  it.
\<close>

theorem eigenvalue_check:
  assumes "linalg_eig ext G = (eig_val, eig_vec)"
  shows "(fst (eval_points_and_function_values ext self Fv (Some G) s) = Inl AssertionError
            \<longleftrightarrow> (\<exists>x \<in> set eig_val. x < - (1 / 10 ^ 4))) \<and>
         (eig_val \<noteq> [] \<and> (\<forall>x \<in> set eig_val. - (1 / 10 ^ 4) \<le> x) \<longrightarrow>
            eval_points_and_function_values ext self Fv (Some G) s =
              assign_values (points_values_of ext (map (\<lambda>x. max x 0) eig_val) eig_vec)
                Fv self s) \<and>
         ((\<forall>x \<in> set eig_val. - (1 / 10 ^ 4) \<le> x) \<and>
          linalg_eig ext' G = (map (\<lambda>x. max x 0) eig_val, eig_vec) \<and>
          linalg_qr ext' = linalg_qr ext \<longrightarrow>
            eval_points_and_function_values ext' self Fv (Some G) s =
              eval_points_and_function_values ext self Fv (Some G) s)"
proof (intro conjI impI)
  show "fst (eval_points_and_function_values ext self Fv (Some G) s) = Inl AssertionError
          \<longleftrightarrow> (\<exists>x \<in> set eig_val. x < - (1 / 10 ^ 4))"
  proof (cases "np_min eig_val")
    case (Inl e)
    with assms show ?thesis
      by (auto simp: eval_points_and_function_values_def dest!: np_min_Inl)
  next
    case (Inr m)
    show ?thesis
    proof (cases "m < - (1 / 10 ^ 4)")
      case True
      with assms Inr np_min_below[OF Inr, of "- (1 / 10 ^ 4)"] show ?thesis
        by (simp add: eval_points_and_function_values_def not_le)
    next
      case False
      with assms Inr np_min_below[OF Inr, of "- (1 / 10 ^ 4)"] show ?thesis
        using assign_values_error[of
            "points_values_of ext (map (\<lambda>x. max x 0) eig_val) eig_vec" Fv self s AssertionError]
        by (auto simp: eval_points_and_function_values_def not_le fst_def split: prod.splits)
    qed
  qed
next
  assume a: "eig_val \<noteq> [] \<and> (\<forall>x \<in> set eig_val. - (1 / 10 ^ 4) \<le> x)"
  then obtain m where m: "np_min eig_val = Inr m"
    by (cases eig_val) (auto simp: np_min_def)
  with a np_min_below[OF m, of "- (1 / 10 ^ 4)"] have "\<not> m < - (1 / 10 ^ 4)"
    by (auto simp: not_less)
  with assms m show "eval_points_and_function_values ext self Fv (Some G) s =
      assign_values (points_values_of ext (map (\<lambda>x. max x 0) eig_val) eig_vec) Fv self s"
    by (simp add: eval_points_and_function_values_def not_less)
next
  assume a: "(\<forall>x \<in> set eig_val. - (1 / 10 ^ 4) \<le> x) \<and>
          linalg_eig ext' G = (map (\<lambda>x. max x 0) eig_val, eig_vec) \<and>
          linalg_qr ext' = linalg_qr ext"
  show "eval_points_and_function_values ext' self Fv (Some G) s =
          eval_points_and_function_values ext self Fv (Some G) s"
  proof (cases eig_val)
    case Nil
    with assms a show ?thesis
      by (simp add: eval_points_and_function_values_def np_min_def)
  next
    case (Cons x xs)
    then obtain m where m: "np_min eig_val = Inr m"
      by (auto simp: np_min_def)
    from Cons obtain m' where m': "np_min (map (\<lambda>x. max x 0) eig_val) = Inr m'"
      by (auto simp: np_min_def)
    from a np_min_below[OF m, of "- (1 / 10 ^ 4)"] have 1: "\<not> m < - (1 / 10 ^ 4)"
      by (auto simp: not_less)
    from np_min_below[OF m', of "- (1 / 10 ^ 4)"] have 2: "\<not> m' < - (1 / 10 ^ 4)"
      by (auto simp: not_less)
    have 3: "map ((\<lambda>x. max x 0) \<circ> (\<lambda>x. max x 0)) eig_val = map (\<lambda>x::real. max x 0) eig_val"
      by (simp add: comp_def)
    have 4: "points_values_of ext' = points_values_of ext"
      using a by (simp add: points_values_of_def fun_eq_iff)
    from assms a m m' 1 2 show ?thesis
      by (simp add: eval_points_and_function_values_def not_less 3 4)
  qed
qed

theorem eigenvalue_check_witness:
  "linalg_eig noisy_externals [[1, 0], [0, 0]] = ([1, - (1 / 20000)], [[1, 0], [0, 1]]) \<and>
   fst (eval_points_and_function_values noisy_externals example_PEP (Some [1 / 4, 0])
          (Some [[1, 0], [0, 0]]) (store example_world)) \<noteq> Inl AssertionError \<and>
   eval_points_and_function_values example_externals example_PEP (Some [1 / 4, 0])
     (Some [[1, 0], [0, 0]]) (store example_world) =
   eval_points_and_function_values noisy_externals example_PEP (Some [1 / 4, 0])
     (Some [[1, 0], [0, 0]]) (store example_world)"
proof -
  have e: "linalg_eig noisy_externals [[1, 0], [0, 0]] =
             ([1, - (1 / 20000)], [[1, 0], [0, 1]])"
    by (simp add: noisy_externals_def example_externals_def)
  note t = eigenvalue_check[OF e, of example_PEP "Some [1 / 4, 0]" "store example_world"
      example_externals]
  have b: "\<forall>x \<in> set [1, - (1 / 20000) :: real]. - (1 / 10 ^ 4) \<le> x"
    by simp
  then have "\<not> (\<exists>x \<in> set [1, - (1 / 20000) :: real]. x < - (1 / 10 ^ 4))"
    by (simp add: not_less)
  with t have 1: "fst (eval_points_and_function_values noisy_externals example_PEP
      (Some [1 / 4, 0]) (Some [[1, 0], [0, 0]]) (store example_world)) \<noteq> Inl AssertionError"
    by blast
  have "linalg_eig example_externals [[1, 0], [0, 0]] =
          (map (\<lambda>x. max x 0) [1, - (1 / 20000)], [[1, 0], [0, 1]])"
    "linalg_qr example_externals = linalg_qr noisy_externals"
    by (simp_all add: noisy_externals_def example_externals_def)
  with t b have "eval_points_and_function_values example_externals example_PEP (Some [1 / 4, 0])
     (Some [[1, 0], [0, 0]]) (store example_world) =
   eval_points_and_function_values noisy_externals example_PEP (Some [1 / 4, 0])
     (Some [[1, 0], [0, 0]]) (store example_world)"
    by blast
  with e 1 show ?thesis by blast
qed

lemma example_points_values:
  "points_values_of example_externals (map (\<lambda>x. max x 0) [1, 0]) [[1, 0], [0, 1]] =
     [[1, 0], [0, 0]]"
  by (simp add: points_values_of_def example_externals_def)




subsection \<open>\<open>solve\<close>, stage by stage\<close>

lemma registered_after_compile:
  "registered_points
     (self\<lparr>list_of_functions :=
             map (\<lambda>f. f\<lparr>function_list_of_constraints := k f\<rparr>) (list_of_functions self)\<rparr>) =
   registered_points self"
  "registered_function_values
     (self\<lparr>list_of_functions :=
             map (\<lambda>f. f\<lparr>function_list_of_constraints := k f\<rparr>) (list_of_functions self)\<rparr>) =
   registered_function_values self"
  by (simp_all add: registered_points_def registered_function_values_def comp_def
      cong: if_cong)

lemma compile_Inr_snd:
  assumes "compile ext c self = (Inr prob, self1)"
  shows "self1 = self\<lparr>list_of_functions :=
               map (\<lambda>f. f\<lparr>function_list_of_constraints := add_class_constraints ext f\<rparr>)
                 (list_of_functions self)\<rparr>"
proof -
  from assms obtain ks where "fst (class_constraints ext c (list_of_functions self)) = Inr ks"
    by (auto simp: compile_def split: sum.splits prod.splits)
  from snd_class_constraints_Inr[OF this] assms show ?thesis
    by (auto simp: compile_def split: sum.splits prod.splits)
qed



lemma solve_Inr:
  assumes "fst (solve ext solver self w) = Inr v"
  shows "\<exists>prob self1 sol u.
           compile ext (classes w) self = (Inr prob, self1) \<and>
           cvxpy_solve ext solver prob = Inr sol \<and>
           eval_points_and_function_values ext self1 (F_value sol) (G_value sol) (store w) =
             (Inr u, store (snd (snd (solve ext solver self w))))"
  using assms
  by (auto simp: solve_def Let_def split: prod.splits sum.splits)


subsection \<open>The loops as a sequence of assignments\<close>












lemma target_sets_of_steps:
  "target_points (assignment_steps self) = set (registered_points self)"
  "target_values (assignment_steps self) = set (registered_function_values self)"
  by (auto simp: target_points_def target_values_def assignment_steps_def
      registered_points_def registered_function_values_def split: if_splits) force+




lemma compile_externals:
  assumes "add_class_constraints ext' = add_class_constraints ext"
  shows "compile ext' c self = compile ext c self"
proof -
  have "class_constraints ext' c fs = class_constraints ext c fs" for fs
    using assms by (induction fs) (simp_all add: Let_def split: sum.splits)
  then show ?thesis by (simp add: compile_def split: sum.splits)
qed

lemma example_compile:
  "compile example_externals example_counters example_PEP =
     (Inr \<lparr>F_shape = 2, G_shape = 2,
           constraints_list =
             [Objective_le \<lparr>scalar = 0, Fweights = [1, 0], Gweights = [[0, 0], [0, 0]]\<rparr>,
              Le_zero \<lparr>scalar = 7, Fweights = [0, 7], Gweights = [[0, 3], [0, 0]]\<rparr>,
              Le_zero \<lparr>scalar = 7, Fweights = [0, 7], Gweights = [[0, 3], [0, 0]]\<rparr>]\<rparr>,
      example_PEP\<lparr>list_of_functions :=
                    [example_function\<lparr>function_list_of_constraints := [example_expression]\<rparr>]\<rparr>)"
  by (simp add: compile_def example_flattened example_shape example_PEP_def
      example_externals_def Let_def)

lemma example_eval_after_compile:
  "eval_points_and_function_values example_externals
     (example_PEP\<lparr>list_of_functions :=
                    [example_function\<lparr>function_list_of_constraints := [example_expression]\<rparr>]\<rparr>)
     (Some [1 / 4, 0]) (Some [[1, 0], [0, 0]]) (store example_world) =
   (Inr (),
    \<lparr>point_value = (\<lambda>p. None)(example_x0 \<mapsto> [1, 0], example_x1 \<mapsto> [0, 0]),
     expression_value = (\<lambda>e. None)(example_function_value \<mapsto> 1 / 4)\<rparr>)"
  by (simp add: eval_points_and_function_values_def example_points_values[simplified]
      example_externals_def np_min_def assign_values_def set_point_value_def column_def
      ncols_def set_function_def set_triplet_def set_function_value_def example_PEP_def
      example_function_def example_world_def example_x0_def example_x1_def
      example_function_value_def points_values_of_def)

lemma example_solve:
  "fst (solve example_externals ''SCS'' example_PEP example_world) = Inr (Float (1 / 4))"
  "store (snd (snd (solve example_externals ''SCS'' example_PEP example_world))) =
     \<lparr>point_value = (\<lambda>p. None)(example_x0 \<mapsto> [1, 0], example_x1 \<mapsto> [0, 0]),
      expression_value = (\<lambda>e. None)(example_function_value \<mapsto> 1 / 4)\<rparr>"
proof -
  have c: "classes example_world = example_counters" by (simp add: example_world_def)
  have s: "cvxpy_solve example_externals = (\<lambda>solver prob. Inr example_solution)"
    by (simp add: example_externals_def)
  have v: "F_value example_solution = Some [1 / 4, 0]"
    "G_value example_solution = Some [[1, 0], [0, 0]]"
    "prob_value example_solution = Float (1 / 4)"
    by (simp_all add: example_solution_def)
  show "fst (solve example_externals ''SCS'' example_PEP example_world) = Inr (Float (1 / 4))"
    by (simp add: solve_def c example_compile s v example_eval_after_compile Let_def)
  show "store (snd (snd (solve example_externals ''SCS'' example_PEP example_world))) =
     \<lparr>point_value = (\<lambda>p. None)(example_x0 \<mapsto> [1, 0], example_x1 \<mapsto> [0, 0]),
      expression_value = (\<lambda>e. None)(example_function_value \<mapsto> 1 / 4)\<rparr>"
    by (simp add: solve_def c example_compile s v example_eval_after_compile Let_def)
qed


lemma constant_flattened:
  "expression_to_cvxpy example_counters constant_expression =
     Inr \<lparr>scalar = 1 / 4, Fweights = [0, 0], Gweights = [[0, 0], [0, 0]]\<rparr>"
  by (simp add: expression_to_cvxpy_def zero_form_def constant_expression_def
      example_counters_def numeral_2_eq_2)








text \<open>
  C7. \<open>solve\<close> calls the solver once, with the solver name it was given, and only if
  the problem compiled. When the solver raises, \<open>solve\<close> fails with the solver's
  error. When the solver returns a status other than \<open>optimal\<close> or
  \<open>optimal_inaccurate\<close>, in which case cvxpy has set no value for \<open>G\<close>, \<open>solve\<close>
  fails on the missing Gram matrix. In both cases no value has been assigned, and the
  solver has not been called again.
\<close>

theorem solver_failure_is_surfaced:
  "(fst (compile ext (classes w) self) = Inl err \<longrightarrow>
      solver_calls (snd (snd (solve ext solver self w))) = solver_calls w) \<and>
   (fst (compile ext (classes w) self) = Inr prob \<longrightarrow>
      solver_calls (snd (snd (solve ext solver self w))) = solver_calls w @ [(solver, prob)] \<and>
      (cvxpy_solve ext solver prob = Inl err \<longrightarrow>
         fst (solve ext solver self w) = Inl err \<and>
         store (snd (snd (solve ext solver self w))) = store w) \<and>
      (cvxpy_solve ext solver prob = Inr sol \<and> values_only_when_solved sol \<and>
       status sol \<noteq> ''optimal'' \<and> status sol \<noteq> ''optimal_inaccurate'' \<longrightarrow>
         fst (solve ext solver self w) = Inl LinAlgError \<and>
         store (snd (snd (solve ext solver self w))) = store w))"
proof (intro conjI impI)
  assume "fst (compile ext (classes w) self) = Inl err"
  from solve_compile_error[OF this]
  show "solver_calls (snd (snd (solve ext solver self w))) = solver_calls w"
    by simp
next
  assume p: "fst (compile ext (classes w) self) = Inr prob"
  then obtain self1 where c: "compile ext (classes w) self = (Inr prob, self1)"
    by (cases "compile ext (classes w) self") simp
  show "solver_calls (snd (snd (solve ext solver self w))) = solver_calls w @ [(solver, prob)]"
    using p by (rule solve_solver_calls)
  {
    assume "cvxpy_solve ext solver prob = Inl err"
    with c show "fst (solve ext solver self w) = Inl err"
      "store (snd (snd (solve ext solver self w))) = store w"
      by (simp_all add: solve_def Let_def)
  }
  {
    assume "cvxpy_solve ext solver prob = Inr sol \<and> values_only_when_solved sol \<and>
       status sol \<noteq> ''optimal'' \<and> status sol \<noteq> ''optimal_inaccurate''"
    then have s: "cvxpy_solve ext solver prob = Inr sol" and g: "G_value sol = None"
      by (auto simp: values_only_when_solved_def)
    have "eval_points_and_function_values ext self1 (F_value sol) (G_value sol) (store w) =
            (Inl LinAlgError, store w)"
      using g by (simp add: eval_points_and_function_values_def)
    with c s show "fst (solve ext solver self w) = Inl LinAlgError"
      "store (snd (snd (solve ext solver self w))) = store w"
      by (simp_all add: solve_def Let_def)
  }
qed

theorem solver_failure_is_surfaced_witness:
  "cvxpy_solve infeasible_externals ''SCS''
     \<lparr>F_shape = 2, G_shape = 2,
      constraints_list =
        [Objective_le \<lparr>scalar = 0, Fweights = [1, 0], Gweights = [[0, 0], [0, 0]]\<rparr>,
         Le_zero \<lparr>scalar = 7, Fweights = [0, 7], Gweights = [[0, 3], [0, 0]]\<rparr>,
         Le_zero \<lparr>scalar = 7, Fweights = [0, 7], Gweights = [[0, 3], [0, 0]]\<rparr>]\<rparr> =
     Inr infeasible_solution \<and>
   status infeasible_solution = ''infeasible'' \<and>
   fst (solve infeasible_externals ''SCS'' example_PEP example_world) = Inl LinAlgError \<and>
   store (snd (snd (solve infeasible_externals ''SCS'' example_PEP example_world))) =
     store example_world \<and>
   solver_calls (snd (snd (solve infeasible_externals ''SCS'' example_PEP example_world))) =
     [(''SCS'',
       \<lparr>F_shape = 2, G_shape = 2,
        constraints_list =
          [Objective_le \<lparr>scalar = 0, Fweights = [1, 0], Gweights = [[0, 0], [0, 0]]\<rparr>,
           Le_zero \<lparr>scalar = 7, Fweights = [0, 7], Gweights = [[0, 3], [0, 0]]\<rparr>,
           Le_zero \<lparr>scalar = 7, Fweights = [0, 7], Gweights = [[0, 3], [0, 0]]\<rparr>]\<rparr>)]"
proof -
  let ?prob = "\<lparr>F_shape = 2, G_shape = 2,
      constraints_list =
        [Objective_le \<lparr>scalar = 0, Fweights = [1, 0], Gweights = [[0, 0], [0, 0]]\<rparr>,
         Le_zero \<lparr>scalar = 7, Fweights = [0, 7], Gweights = [[0, 3], [0, 0]]\<rparr>,
         Le_zero \<lparr>scalar = 7, Fweights = [0, 7], Gweights = [[0, 3], [0, 0]]\<rparr>]\<rparr>"
  have c: "classes example_world = example_counters" "solver_calls example_world = []"
    by (simp_all add: example_world_def)
  have "compile infeasible_externals example_counters example_PEP =
          compile example_externals example_counters example_PEP"
    by (rule compile_externals) (simp add: infeasible_externals_def)
  then have k: "fst (compile infeasible_externals (classes example_world) example_PEP) =
                  Inr ?prob"
    by (simp add: c example_compile)
  have s: "cvxpy_solve infeasible_externals ''SCS'' ?prob = Inr infeasible_solution"
    by (simp add: infeasible_externals_def)
  have v: "values_only_when_solved infeasible_solution"
    "status infeasible_solution = ''infeasible''"
    by (simp_all add: values_only_when_solved_def infeasible_solution_def)
  then have n: "status infeasible_solution \<noteq> ''optimal''"
    "status infeasible_solution \<noteq> ''optimal_inaccurate''"
    by simp_all
  from solver_failure_is_surfaced[where ext = infeasible_externals and w = example_world
      and self = example_PEP and err = SolverError and prob = ?prob and solver = "''SCS''"
      and sol = infeasible_solution] k s v n c
  show ?thesis by simp
qed

subsection \<open>Inner products of the reconstructed vectors\<close>

lemma dot_columns: "dot (map (\<lambda>row. row ! i) M) (map (\<lambda>row. row ! j) M) = gram M i j"
  by (induction M) (simp_all add: dot_def gram_def)

lemma abs_mult_le_squares: "\<bar>a * b\<bar> \<le> (a\<^sup>2 + b\<^sup>2) / 2" for a b :: real
proof -
  have "2 * \<bar>a\<bar> * \<bar>b\<bar> \<le> \<bar>a\<bar>\<^sup>2 + \<bar>b\<bar>\<^sup>2" by (rule sum_squares_bound)
  then show ?thesis by (simp add: abs_mult)
qed

lemma gram_scaled:
  assumes len: "length m = P" "length Q = P" "list_all (\<lambda>row. length row = P) Q"
    and nonneg: "\<forall>x \<in> set m. 0 \<le> x"
    and ij: "i < P" "j < P"
  shows "gram (transpose (map (\<lambda>row. map2 (*) (map sqrt m) row) Q)) i j =
           (\<Sum>k<P. m ! k * (Q ! i ! k) * (Q ! j ! k))"
proof -
  define S where "S = map (\<lambda>row. map2 (*) (map sqrt m) row) Q"
  have rows: "\<And>i. i < P \<Longrightarrow> length (Q ! i) = P"
    using len by (simp add: list_all_length)
  have lS: "length S = P" using len by (simp add: S_def)
  have rS: "\<And>i. i < length S \<Longrightarrow> length (S ! i) = P"
    using len rows by (simp add: S_def)
  have e: "S = [] \<Longrightarrow> P = 0" using lS by simp
  have t: "transpose S = map (\<lambda>k. map (\<lambda>i. S ! i ! k) [0..<length S]) [0..<P]"
    by (rule transpose_rectangle[OF e rS])
  have entry: "S ! i' ! k = sqrt (m ! k) * (Q ! i' ! k)" if "i' < P" "k < P" for i' k
    using that len rows by (simp add: S_def)
  have "gram (transpose S) i j =
          (\<Sum>k \<leftarrow> [0..<P]. map (\<lambda>i. S ! i ! k) [0..<P] ! i * map (\<lambda>i. S ! i ! k) [0..<P] ! j)"
    unfolding t gram_def lS by (simp add: comp_def)
  also have "\<dots> = (\<Sum>k \<leftarrow> [0..<P]. S ! i ! k * (S ! j ! k))"
    using ij by simp
  also have "\<dots> = (\<Sum>k<P. S ! i ! k * (S ! j ! k))"
    by (simp add: interv_sum_list_conv_sum_set_nat atLeast0LessThan)
  also have "\<dots> = (\<Sum>k<P. m ! k * (Q ! i ! k) * (Q ! j ! k))"
  proof (rule sum.cong)
    fix k assume "k \<in> {..<P}"
    then have k: "k < P" by simp
    then have "m ! k \<in> set m" using len by simp
    with nonneg have "0 \<le> m ! k" by blast
    then have "sqrt (m ! k) * sqrt (m ! k) = m ! k" by simp
    then have "(sqrt (m ! k) * (Q ! i ! k)) * (sqrt (m ! k) * (Q ! j ! k)) =
                 m ! k * (Q ! i ! k) * (Q ! j ! k)"
      by (metis mult.assoc mult.left_commute)
    with entry[OF ij(1) k] entry[OF ij(2) k]
    show "S ! i ! k * (S ! j ! k) = m ! k * (Q ! i ! k) * (Q ! j ! k)"
      by simp
  qed simp
  finally show ?thesis unfolding S_def .
qed

lemma clipping_gap:
  fixes ev :: "real list"
  assumes len: "length ev = P"
    and low: "\<forall>x \<in> set ev. - t \<le> x"
    and t: "0 \<le> t"
    and ni: "(\<Sum>k<P. (a k)\<^sup>2) = 1" and nj: "(\<Sum>k<P. (b k)\<^sup>2) = 1"
  shows "\<bar>(\<Sum>k<P. max (ev ! k) 0 * a k * b k) - (\<Sum>k<P. ev ! k * a k * b k)\<bar> \<le> t"
proof -
  have "(\<Sum>k<P. max (ev ! k) 0 * a k * b k) - (\<Sum>k<P. ev ! k * a k * b k) =
          (\<Sum>k<P. (max (ev ! k) 0 - ev ! k) * (a k * b k))"
    by (simp add: sum_subtractf algebra_simps)
  also have "\<bar>\<dots>\<bar> \<le> (\<Sum>k<P. \<bar>(max (ev ! k) 0 - ev ! k) * (a k * b k)\<bar>)"
    by (rule sum_abs)
  also have "\<dots> \<le> (\<Sum>k<P. t * (((a k)\<^sup>2 + (b k)\<^sup>2) / 2))"
  proof (rule sum_mono)
    fix k assume "k \<in> {..<P}"
    then have "ev ! k \<in> set ev" using len by simp
    with low have "- t \<le> ev ! k" by blast
    with t have "0 \<le> max (ev ! k) 0 - ev ! k" "max (ev ! k) 0 - ev ! k \<le> t"
      by (auto simp: max_def)
    then have "\<bar>(max (ev ! k) 0 - ev ! k) * (a k * b k)\<bar> \<le> t * \<bar>a k * b k\<bar>"
      by (simp add: abs_mult mult_right_mono)
    also have "\<dots> \<le> t * (((a k)\<^sup>2 + (b k)\<^sup>2) / 2)"
      using t by (intro mult_left_mono abs_mult_le_squares)
    finally show "\<bar>(max (ev ! k) 0 - ev ! k) * (a k * b k)\<bar> \<le> t * (((a k)\<^sup>2 + (b k)\<^sup>2) / 2)" .
  qed
  also have "\<dots> = t * (((\<Sum>k<P. (a k)\<^sup>2) + (\<Sum>k<P. (b k)\<^sup>2)) / 2)"
    by (simp add: sum_distrib_left[symmetric] sum.distrib sum_divide_distrib[symmetric])
  also have "\<dots> = t" using ni nj by simp
  finally show ?thesis .
qed
lemma rectangle_ncols: "list_all (\<lambda>row. length row = P) R \<Longrightarrow> c < ncols R \<Longrightarrow> c < P"
  by (cases R) (simp_all add: ncols_def)

lemma eval_Inr:
  assumes "eval_points_and_function_values ext self Fv (Some G) s = (Inr u, s')"
  shows "assign_values (points_values ext G) Fv self s = (Inr u, s')"
    and "\<forall>x \<in> set (fst (linalg_eig ext G)). - (1 / 10 ^ 4) \<le> x"
proof -
  obtain ev Q where e: "linalg_eig ext G = (ev, Q)" by (cases "linalg_eig ext G")
  from assms e obtain m where m: "np_min ev = Inr m" "- (1 / 10 ^ 4) \<le> m"
    by (cases "np_min ev")
      (auto simp: eval_points_and_function_values_def split: if_splits)
  from assms e m show "assign_values (points_values ext G) Fv self s = (Inr u, s')"
    by (simp add: eval_points_and_function_values_def points_values_def)
  from np_min_below[OF m(1), of "- (1 / 10 ^ 4)"] m(2)
  have "\<not> (\<exists>x \<in> set ev. x < - (1 / 10 ^ 4))" by simp
  with e show "\<forall>x \<in> set (fst (linalg_eig ext G)). - (1 / 10 ^ 4) \<le> x"
    by (auto simp: not_less)
qed

lemma reconstructed_dot:
  assumes a: "assign_values (points_values ext G) Fv self s = (Inr u, s')"
    and low: "\<forall>x \<in> set (fst (linalg_eig ext G)). - (1 / 10 ^ 4) \<le> x"
    and exact: "exact_linalg ext G"
    and p: "p \<in> set (registered_points self)" "point_is_leaf p"
    and q: "q \<in> set (registered_points self)" "point_is_leaf q"
  shows "\<exists>vp vq.
           point_value s' p = Some vp \<and> point_value s' q = Some vq \<and>
           point_counter p < length G \<and> point_counter q < length G \<and>
           dot vp vq =
             (\<Sum>k<length G. max (fst (linalg_eig ext G) ! k) 0 *
                             (snd (linalg_eig ext G) ! point_counter p ! k) *
                             (snd (linalg_eig ext G) ! point_counter q ! k)) \<and>
           \<bar>dot vp vq - G ! point_counter p ! point_counter q\<bar> \<le> 1 / 10 ^ 4 \<and>
           ((\<forall>x \<in> set (fst (linalg_eig ext G)). 0 \<le> x) \<longrightarrow>
              dot vp vq = G ! point_counter p ! point_counter q)"
proof -
  obtain ev Q where e: "linalg_eig ext G = (ev, Q)" by (cases "linalg_eig ext G")
  define P where "P = length G"
  define m where "m = map (\<lambda>x. max x 0) ev"
  define X where "X = transpose (map (\<lambda>row. map2 (*) (map sqrt m) row) Q)"
  define R where "R = points_values ext G"
  define i where "i = point_counter p"
  define j where "j = point_counter q"
  have R: "R = linalg_qr ext X"
    by (simp add: R_def X_def m_def points_values_def points_values_of_def e)
  from exact have len: "length ev = P" "length Q = P" "list_all (\<lambda>row. length row = P) Q"
    and G: "\<And>i j. i < P \<Longrightarrow> j < P \<Longrightarrow> G ! i ! j = (\<Sum>k<P. ev ! k * (Q ! i ! k) * (Q ! j ! k))"
    and norm: "\<And>i. i < P \<Longrightarrow> (\<Sum>k<P. (Q ! i ! k)\<^sup>2) = 1"
    and rect: "list_all (\<lambda>row. length row = P) R"
    and same: "\<And>i j. i < P \<Longrightarrow> j < P \<Longrightarrow> gram R i j = gram X i j"
    unfolding exact_linalg_def e prod.case Let_def P_def[symmetric] m_def[symmetric]
      X_def[symmetric] R[symmetric]
    by blast+
  from assign_values_Inr[OF a]
  have s': "s' = assigned R Fv (set (registered_points self))
                   (set (registered_function_values self)) s"
    and range: "list_all (point_in_range R) (registered_points self)"
    unfolding R_def by blast+
  from range p q have "i < ncols R" "j < ncols R"
    by (simp_all add: list_all_iff point_in_range_def i_def j_def)
  with rect have ij: "i < P" "j < P" by (blast intro: rectangle_ncols)+
  define vp where "vp = map (\<lambda>row. row ! i) R"
  define vq where "vq = map (\<lambda>row. row ! j) R"
  have vals: "point_value s' p = Some vp" "point_value s' q = Some vq"
    using p q by (simp_all add: s' assigned_def vp_def vq_def i_def j_def)
  have lm: "length m = P" and nonneg: "\<forall>x \<in> set m. 0 \<le> x"
    using len by (auto simp: m_def)
  have mk: "\<And>k. k < P \<Longrightarrow> m ! k = max (ev ! k) 0"
    using len by (simp add: m_def)
  have "dot vp vq = gram R i j" by (simp add: vp_def vq_def dot_columns)
  also have "\<dots> = gram X i j" by (rule same[OF ij])
  also have "\<dots> = (\<Sum>k<P. m ! k * (Q ! i ! k) * (Q ! j ! k))"
    unfolding X_def by (rule gram_scaled[OF lm len(2,3) nonneg ij])
  also have "\<dots> = (\<Sum>k<P. max (ev ! k) 0 * (Q ! i ! k) * (Q ! j ! k))"
    by (rule sum.cong) (simp_all add: mk)
  finally have d: "dot vp vq = (\<Sum>k<P. max (ev ! k) 0 * (Q ! i ! k) * (Q ! j ! k))" .
  from low e have low': "\<forall>x \<in> set ev. - (1 / 10 ^ 4) \<le> x" by simp
  have gap: "\<bar>dot vp vq - G ! i ! j\<bar> \<le> 1 / 10 ^ 4"
    unfolding d G[OF ij]
    by (rule clipping_gap[OF len(1) low' _ norm[OF ij(1)] norm[OF ij(2)]]) simp
  have same_when: "dot vp vq = G ! i ! j" if "\<forall>x \<in> set ev. 0 \<le> x"
  proof -
    have "max (ev ! k) 0 = ev ! k" if "k < P" for k
    proof -
      from that len have "ev ! k \<in> set ev" by simp
      with \<open>\<forall>x \<in> set ev. 0 \<le> x\<close> have "0 \<le> ev ! k" by blast
      then show ?thesis by simp
    qed
    then show ?thesis unfolding d G[OF ij] by (intro sum.cong) simp_all
  qed
  from vals ij d gap same_when show ?thesis
    unfolding e fst_conv snd_conv P_def i_def j_def by blast
qed

lemma returned_solution_Inr:
  assumes "fst (solve ext solver self w) = Inr v"
    and "returned_solution ext solver self w = Some sol"
  shows "\<exists>u. eval_points_and_function_values ext
                (self\<lparr>list_of_functions :=
                        map (\<lambda>f. f\<lparr>function_list_of_constraints := add_class_constraints ext f\<rparr>)
                          (list_of_functions self)\<rparr>)
                (F_value sol) (G_value sol) (store w) =
              (Inr u, store (snd (snd (solve ext solver self w))))"
proof -
  from solve_Inr[OF assms(1)] obtain prob self1 sol' u where
    c: "compile ext (classes w) self = (Inr prob, self1)"
    and s: "cvxpy_solve ext solver prob = Inr sol'"
    and r: "eval_points_and_function_values ext self1 (F_value sol') (G_value sol') (store w) =
             (Inr u, store (snd (snd (solve ext solver self w))))"
    by blast
  from assms(2) c s have "sol' = sol" by (simp add: returned_solution_def)
  with r compile_Inr_snd[OF c] show ?thesis by blast
qed

lemma exact_on_example: "exact_linalg example_externals [[1, 0], [0, 0]]"
  by (simp add: exact_linalg_def example_externals_def Let_def gram_def lessThan_Suc
      numeral_2_eq_2 less_Suc_eq all_conj_distrib)

lemma diagonal_fields:
  "cvxpy_solve diagonal_externals = (\<lambda>solver prob. Inr noisy_solution)"
  "linalg_eig diagonal_externals noisy_G = ([1, - (1 / 20000)], [[1, 0], [0, 1]])"
  "linalg_qr diagonal_externals = (\<lambda>M. M)"
  by (simp_all add: diagonal_externals_def example_externals_def diagonal_eig_def noisy_G_def
      numeral_2_eq_2)

lemma exact_on_noisy: "exact_linalg diagonal_externals noisy_G"
  unfolding exact_linalg_def diagonal_fields
  by (simp add: noisy_G_def Let_def gram_def lessThan_Suc
      numeral_2_eq_2 less_Suc_eq all_conj_distrib)

lemma noisy_solve:
  "fst (solve diagonal_externals ''SCS'' two_point_PEP example_world) = Inr (Float (1 / 4))"
  "point_value (store (snd (snd (solve diagonal_externals ''SCS'' two_point_PEP
      example_world)))) example_x1 = Some [0, 0]"
proof -
  have c: "classes example_world = example_counters" by (simp add: example_world_def)
  have k: "compile diagonal_externals example_counters two_point_PEP =
     (Inr \<lparr>F_shape = 2, G_shape = 2,
           constraints_list =
             [Objective_le \<lparr>scalar = 1 / 4, Fweights = [0, 0], Gweights = [[0, 0], [0, 0]]\<rparr>]\<rparr>,
      two_point_PEP)"
    by (simp add: compile_def constant_flattened example_shape two_point_PEP_def)
  have v: "F_value noisy_solution = Some [0, - 1]" "G_value noisy_solution = Some noisy_G"
    "prob_value noisy_solution = Float (1 / 4)"
    by (simp_all add: noisy_solution_def)
  have pv: "points_values_of diagonal_externals (map (\<lambda>x. max x 0) [1, - (1 / 20000)])
              [[1, 0], [0, 1]] = [[1, 0], [0, 0]]"
    by (simp add: points_values_of_def diagonal_fields)
  have e: "eval_points_and_function_values diagonal_externals two_point_PEP (Some [0, - 1])
             (Some noisy_G) (store example_world) =
           (Inr (),
            \<lparr>point_value = (\<lambda>p. None)(example_x0 \<mapsto> [1, 0], example_x1 \<mapsto> [0, 0]),
             expression_value = (\<lambda>e. None)\<rparr>)"
    unfolding eval_points_and_function_values_def option.case diagonal_fields prod.case pv
    by (simp add: np_min_def assign_values_def set_point_value_def column_def ncols_def
        two_point_PEP_def example_world_def example_x0_def example_x1_def)
  show "fst (solve diagonal_externals ''SCS'' two_point_PEP example_world) =
          Inr (Float (1 / 4))"
    by (simp add: solve_def c k diagonal_fields v e Let_def)
  show "point_value (store (snd (snd (solve diagonal_externals ''SCS'' two_point_PEP
      example_world)))) example_x1 = Some [0, 0]"
    by (simp add: solve_def c k diagonal_fields v e Let_def)
qed

text \<open>
  C4, as the code has it. After a successful \<open>solve\<close>, with \<open>eig\<close> and \<open>qr\<close> exact on
  the matrix \<open>G\<close> the solver returned: any two leaf points (or leaf gradients) \<open>p\<close>,
  \<open>q\<close> that the loops visit have vectors, their indices are below the size of \<open>G\<close>, and
  the inner product of their vectors is entry \<open>(i, j)\<close> of \<open>Q max(\<Lambda>, 0) Q\<^sup>t\<close>, the
  matrix rebuilt from the clipped eigenvalues. It is within \<open>10\<^sup>-\<^sup>4\<close>, the tolerance of
  the check on the eigenvalues, of \<open>G[i, j]\<close>, and it is \<open>G[i, j]\<close> when no eigenvalue
  of \<open>G\<close> is negative.
\<close>

theorem reconstructed_inner_products:
  assumes "fst (solve ext solver self w) = Inr v"
    and "returned_solution ext solver self w = Some sol" and "G_value sol = Some G"
    and "exact_linalg ext G"
    and "p \<in> set (registered_points self)" "point_is_leaf p"
    and "q \<in> set (registered_points self)" "point_is_leaf q"
  shows "\<exists>vp vq.
           point_value (store (snd (snd (solve ext solver self w)))) p = Some vp \<and>
           point_value (store (snd (snd (solve ext solver self w)))) q = Some vq \<and>
           point_counter p < length G \<and> point_counter q < length G \<and>
           dot vp vq =
             (\<Sum>k<length G. max (fst (linalg_eig ext G) ! k) 0 *
                             (snd (linalg_eig ext G) ! point_counter p ! k) *
                             (snd (linalg_eig ext G) ! point_counter q ! k)) \<and>
           \<bar>dot vp vq - G ! point_counter p ! point_counter q\<bar> \<le> 1 / 10 ^ 4 \<and>
           ((\<forall>x \<in> set (fst (linalg_eig ext G)). 0 \<le> x) \<longrightarrow>
              dot vp vq = G ! point_counter p ! point_counter q)"
proof -
  let ?self1 = "self\<lparr>list_of_functions :=
                        map (\<lambda>f. f\<lparr>function_list_of_constraints := add_class_constraints ext f\<rparr>)
                          (list_of_functions self)\<rparr>"
  from returned_solution_Inr[OF assms(1,2)] assms(3) obtain u where
    r: "eval_points_and_function_values ext ?self1 (F_value sol) (Some G) (store w) =
          (Inr u, store (snd (snd (solve ext solver self w))))"
    by auto
  have reg: "registered_points ?self1 = registered_points self"
    by (rule registered_after_compile)
  show ?thesis
    by (rule reconstructed_dot[OF eval_Inr[OF r] assms(4)])
      (simp_all add: reg assms(5-8))
qed

theorem reconstructed_inner_products_witness:
  "fst (solve example_externals ''SCS'' example_PEP example_world) = Inr (Float (1 / 4)) \<and>
   returned_solution example_externals ''SCS'' example_PEP example_world = Some example_solution \<and>
   G_value example_solution = Some [[1, 0], [0, 0]] \<and>
   exact_linalg example_externals [[1, 0], [0, 0]] \<and>
   example_x0 \<in> set (registered_points example_PEP) \<and> point_is_leaf example_x0 \<and>
   example_x1 \<in> set (registered_points example_PEP) \<and> point_is_leaf example_x1 \<and>
   point_value (store (snd (snd (solve example_externals ''SCS'' example_PEP example_world))))
     example_x0 = Some [1, 0] \<and>
   point_value (store (snd (snd (solve example_externals ''SCS'' example_PEP example_world))))
     example_x1 = Some [0, 0] \<and>
   dot [1, 0] [0, 0] = [[1, 0], [0, 0]] ! 0 ! 1 \<and>
   \<bar>dot [1, 0] [0, 0] - [[1, 0], [0, 0]] ! 0 ! 1\<bar> \<le> 1 / 10 ^ 4"
proof -
  have c: "classes example_world = example_counters" by (simp add: example_world_def)
  have s: "returned_solution example_externals ''SCS'' example_PEP example_world =
             Some example_solution"
    by (simp add: returned_solution_def c example_compile) (simp add: example_externals_def)
  have g: "G_value example_solution = Some [[1, 0], [0, 0]]"
    by (simp add: example_solution_def)
  have x: "example_x0 \<in> set (registered_points example_PEP)" "point_is_leaf example_x0"
    "example_x1 \<in> set (registered_points example_PEP)" "point_is_leaf example_x1"
    "point_counter example_x0 = 0" "point_counter example_x1 = 1" "example_x0 \<noteq> example_x1"
    by (simp_all add: registered_points_def example_PEP_def example_function_def
        example_x0_def example_x1_def)
  have e: "linalg_eig example_externals [[1, 0], [0, 0]] = ([1, 0], [[1, 0], [0, 1]])"
    by (simp add: example_externals_def)
  from reconstructed_inner_products[OF example_solve(1) s g exact_on_example x(1-4)]
  have "dot [1, 0] [0, 0] = [[1, 0], [0, 0]] ! 0 ! 1 \<and>
        \<bar>dot [1, 0] [0, 0] - [[1, 0], [0, 0]] ! 0 ! 1\<bar> \<le> 1 / 10 ^ 4"
    unfolding example_solve(2) e x(5,6) by (simp add: x(7))
  with example_solve s g exact_on_example x show ?thesis by (simp add: x(7))
qed

text \<open>
  The tolerance of C4 is not \<open>10\<^sup>-\<^sup>6\<close>. The solver returns
  \<open>G = diag(1, - 1/20000)\<close>, which passes the check on the eigenvalues; \<open>eig\<close> and \<open>qr\<close>
  are exact on it; \<open>solve\<close> succeeds and gives the leaf point of index 1 the vector
  \<open>[0, 0]\<close>, whose inner product with itself is \<open>0\<close>, at a distance \<open>1/20000\<close> from
  \<open>G[1, 1]\<close>.
\<close>

theorem clipped_eigenvalue_counterexample:
  "fst (solve diagonal_externals ''SCS'' two_point_PEP example_world) = Inr (Float (1 / 4)) \<and>
   returned_solution diagonal_externals ''SCS'' two_point_PEP example_world =
     Some noisy_solution \<and>
   G_value noisy_solution = Some noisy_G \<and>
   exact_linalg diagonal_externals noisy_G \<and>
   example_x1 \<in> set (registered_points two_point_PEP) \<and> point_is_leaf example_x1 \<and>
   point_value (store (snd (snd (solve diagonal_externals ''SCS'' two_point_PEP
      example_world)))) example_x1 = Some [0, 0] \<and>
   1 / 10 ^ 6 < \<bar>dot [0, 0] [0, 0] - noisy_G ! point_counter example_x1 ! point_counter example_x1\<bar>"
proof -
  have c: "classes example_world = example_counters" by (simp add: example_world_def)
  have k: "compile diagonal_externals example_counters two_point_PEP =
     (Inr \<lparr>F_shape = 2, G_shape = 2,
           constraints_list =
             [Objective_le \<lparr>scalar = 1 / 4, Fweights = [0, 0], Gweights = [[0, 0], [0, 0]]\<rparr>]\<rparr>,
      two_point_PEP)"
    by (simp add: compile_def constant_flattened example_shape two_point_PEP_def)
  have s: "returned_solution diagonal_externals ''SCS'' two_point_PEP example_world =
             Some noisy_solution"
    by (simp add: returned_solution_def c k diagonal_fields)
  have g: "G_value noisy_solution = Some noisy_G" by (simp add: noisy_solution_def)
  have x: "example_x1 \<in> set (registered_points two_point_PEP)" "point_is_leaf example_x1"
    by (simp_all add: registered_points_def two_point_PEP_def example_x1_def)
  have d: "1 / 10 ^ 6 <
      \<bar>dot [0, 0] [0, 0] - noisy_G ! point_counter example_x1 ! point_counter example_x1\<bar>"
    by (simp add: dot_def noisy_G_def example_x1_def)
  from noisy_solve s g exact_on_noisy x d show ?thesis by simp
qed

end
